theory Spec2Isabelle
  imports Main "HOL-Library.Word" "HOL-Library.Signed_Division"
begin

unbundle bit_operations_syntax

section \<open>Bytes, payloads and big-endian extraction\<close>

type_synonym u8 = "8 word"
type_synonym u16 = "16 word"
type_synonym u32 = "32 word"

text \<open>
  A payload is the \<^verbatim>\<open>const char *\<close> the parsers receive: the bytes found in memory
  from the pointer on, addressed by a C \<^verbatim>\<open>int\<close> offset.  The parsers never compare an
  offset with \<^verbatim>\<open>payload_len\<close>, so a read is whatever byte memory holds there.
\<close>

type_synonym payload = "int \<Rightarrow> u8"

text \<open>The bytes of a list laid out in memory from offset 0, followed by zero bytes.\<close>

definition payload_of :: "u8 list \<Rightarrow> payload" where
  "payload_of bs = (\<lambda>i. if 0 \<le> i \<and> i < int (length bs) then bs ! nat i else 0)"

text \<open>
  Modelled from the spec: the macros \<^verbatim>\<open>CONVERT_TO_16\<close> and \<^verbatim>\<open>CONVERT_TO_32\<close> of
  \<^verbatim>\<open>byteops.h\<close>, which is not among the sources.  The spec calls them big-endian field
  extractors: the first argument is the most significant byte.
\<close>

definition CONVERT_TO_16 :: "u8 \<Rightarrow> u8 \<Rightarrow> u16" where
  "CONVERT_TO_16 a b = push_bit 8 (ucast a) OR ucast b"

definition CONVERT_TO_32 :: "u8 \<Rightarrow> u8 \<Rightarrow> u8 \<Rightarrow> u8 \<Rightarrow> u32" where
  "CONVERT_TO_32 a b c d =
     push_bit 24 (ucast a) OR push_bit 16 (ucast b) OR push_bit 8 (ucast c) OR ucast d"

section \<open>DSM-CC message header\<close>

text \<open>
  Modelled from the spec: the structures of \<^verbatim>\<open>tables/dsmcc.h\<close>, which is not among the
  sources, with the fields and widths the spec lists for the message header.  The
  adaptation header is present when the parser has written it.
\<close>

record dsmcc_adaptation_header =
  adaptation_type :: u8
  adaptation_data_bytes :: "u8 list"

record dsmcc_message_header =
  protocol_discriminator :: u8
  dsmcc_type :: u8
  message_id :: u16
  transaction_id :: u32
  reserved :: u8
  adaptation_length :: u8
  message_length :: u16
  dsmcc_adaptation_header :: "dsmcc_adaptation_header option"

text \<open>
  \<^verbatim>\<open>dsmcc_parse_message_header\<close>.  The adaptation header is written only when
  \<^verbatim>\<open>adaptation_length\<close> is nonzero (\<open>None\<close> otherwise); its data bytes are the
  \<^verbatim>\<open>adaptation_length\<close> bytes copied by the loop over \<^verbatim>\<open>j\<close> from offset
  \<^verbatim>\<open>i+13+j\<close>.  The result is the header and the returned offset \<^verbatim>\<open>i+12\<close>.  The
  offsets are C \<^verbatim>\<open>int\<close> values far from overflow, so they are integers here.
\<close>

definition dsmcc_parse_message_header :: "payload \<Rightarrow> int \<Rightarrow> dsmcc_message_header \<times> int" where
  "dsmcc_parse_message_header p index =
     (let i = index;
          alen = p (i + 9)
      in (\<lparr> protocol_discriminator = p i,
            dsmcc_type = p (i + 1),
            message_id = CONVERT_TO_16 (p (i + 2)) (p (i + 3)),
            transaction_id = CONVERT_TO_32 (p (i + 4)) (p (i + 5)) (p (i + 6)) (p (i + 7)),
            reserved = p (i + 8),
            adaptation_length = alen,
            message_length = CONVERT_TO_16 (p (i + 10)) (p (i + 11)),
            dsmcc_adaptation_header =
              (if alen \<noteq> 0
               then Some \<lparr> adaptation_type = p (i + 12),
                           adaptation_data_bytes =
                             map (\<lambda>j. p (i + 13 + int j)) [0 ..< unat alen] \<rparr>
               else None) \<rparr>,
          i + 12))"

text \<open>The bytes of a payload from offset \<open>i\<close>, \<open>n\<close> of them.\<close>

definition payload_bytes :: "payload \<Rightarrow> int \<Rightarrow> nat \<Rightarrow> u8 list" where
  "payload_bytes p i n = map (\<lambda>j. p (i + int j)) [0 ..< n]"

text \<open>
  The bytes the adaptation header holds after parsing: the type byte followed by the
  data bytes.
\<close>

definition adaptation_portion :: "dsmcc_adaptation_header \<Rightarrow> u8 list" where
  "adaptation_portion ah = adaptation_type ah # adaptation_data_bytes ah"

section \<open>The printf conversions the parsers use\<close>

text \<open>
  The C library's \<^verbatim>\<open>printf\<close> family, for the three conversions of these sources.
  No rendered name or target reaches the size of its buffer (32, 64 and \<^verbatim>\<open>PATH_MAX\<close>
  bytes), so the truncation of \<^verbatim>\<open>snprintf\<close> never applies.
\<close>

definition hex_digit :: "nat \<Rightarrow> char" where
  "hex_digit n = ''0123456789abcdef'' ! (n mod 16)"

fun hex_digits :: "nat \<Rightarrow> string" where
  "hex_digits n =
     (if n < 16 then [hex_digit n] else hex_digits (n div 16) @ [hex_digit (n mod 16)])"

fun dec_digits :: "nat \<Rightarrow> string" where
  "dec_digits n =
     (if n < 10 then [hex_digit n] else dec_digits (n div 10) @ [hex_digit (n mod 10)])"

text \<open>
  \<^verbatim>\<open>%#04x\<close>: the flag \<^verbatim>\<open>#\<close> puts \<^verbatim>\<open>0x\<close> before a nonzero value only, and the field
  width 4 counts that prefix, so the zero padding fills up to two digits.
\<close>

definition fmt_hash_04x :: "nat \<Rightarrow> string" where
  "fmt_hash_04x v =
     (if v = 0 then ''0000''
      else ''0x'' @ replicate (2 - length (hex_digits v)) CHR ''0'' @ hex_digits v)"

text \<open>\<^verbatim>\<open>%02d\<close> of a value that is not negative.\<close>

definition fmt_02d :: "nat \<Rightarrow> string" where
  "fmt_02d v = replicate (2 - length (dec_digits v)) CHR ''0'' @ dec_digits v"

text \<open>\<^verbatim>\<open>0x%04x\<close>: the rendering the spec describes, four hexadecimal digits at least.\<close>

definition fmt_0x04x :: "nat \<Rightarrow> string" where
  "fmt_0x04x v = ''0x'' @ replicate (4 - length (hex_digits v)) CHR ''0'' @ hex_digits v"

declare hex_digits.simps [simp del] dec_digits.simps [simp del]

section \<open>The dentry tree\<close>

text \<open>
  The file type bits of a mode, from the C library's \<^verbatim>\<open>sys/stat.h\<close>: the octal
  0170000, 0100000, 0040000 and 0120000, and the permission bits 0555, 0777 and 0444 the
  dentries get, written in decimal.
\<close>

definition S_IFMT :: nat where "S_IFMT = 61440"
definition S_IFREG :: nat where "S_IFREG = 32768"
definition S_IFDIR :: nat where "S_IFDIR = 16384"
definition S_IFLNK :: nat where "S_IFLNK = 40960"
definition perm_0555 :: nat where "perm_0555 = 365"
definition perm_0777 :: nat where "perm_0777 = 511"
definition perm_0444 :: nat where "perm_0444 = 292"

definition S_ISLNK :: "nat \<Rightarrow> bool" where
  "S_ISLNK m = (m AND S_IFMT = S_IFLNK)"

definition S_ISDIR :: "nat \<Rightarrow> bool" where
  "S_ISDIR m = (m AND S_IFMT = S_IFDIR)"

text \<open>
  A dentry with its name, mode (file type and permission bits), inode number, contents
  (the bytes of a file or the target of a symlink) and children in the order of their
  creation.  A dentry owns its children, so the tree is a value; the parent pointer is
  the position in the tree.
\<close>

datatype dentry =
  Dentry (d_name: string) (d_mode: nat) (d_inode: nat) (d_contents: string)
         (d_children: "dentry list")

definition bytes_to_string :: "u8 list \<Rightarrow> string" where
  "bytes_to_string bs = map (\<lambda>b. char_of (unat b)) bs"

text \<open>
  Modelled from the spec: the macros \<^verbatim>\<open>CREATE_DIRECTORY\<close>, \<^verbatim>\<open>CREATE_SYMLINK\<close>,
  \<^verbatim>\<open>CREATE_FILE_NUMBER\<close> and \<^verbatim>\<open>CREATE_FILE_BIN\<close> of \<^verbatim>\<open>fsutils.h\<close>, which is not among
  the sources.  Each appends one child to its parent: a directory (read and execute
  only), a symlink holding its target, a numeric leaf named after the field with the
  value in decimal ASCII, a binary leaf with the raw bytes.  Here they build the child;
  the caller lists the children of a directory in the order the source creates them.
  The extended attributes and the inode numbers of these children are not modelled.
\<close>

definition CREATE_DIRECTORY :: "string \<Rightarrow> dentry list \<Rightarrow> dentry" where
  "CREATE_DIRECTORY nm cs = Dentry nm (S_IFDIR OR perm_0555) 0 [] cs"

definition CREATE_SYMLINK :: "string \<Rightarrow> string \<Rightarrow> dentry" where
  "CREATE_SYMLINK nm target = Dentry nm (S_IFLNK OR perm_0777) 0 target []"

definition CREATE_FILE_NUMBER :: "string \<Rightarrow> nat \<Rightarrow> dentry" where
  "CREATE_FILE_NUMBER field v = Dentry field (S_IFREG OR perm_0444) 0 (dec_digits v) []"

definition CREATE_FILE_BIN :: "string \<Rightarrow> u8 list \<Rightarrow> nat \<Rightarrow> dentry" where
  "CREATE_FILE_BIN field bs len = Dentry field (S_IFREG OR perm_0444) 0 (bytes_to_string (take len bs)) []"

text \<open>
  Modelled from the spec: \<^verbatim>\<open>fsutils_get_child\<close> and \<^verbatim>\<open>fsutils_get_dentry\<close> of
  \<^verbatim>\<open>fsutils.c\<close>, which is not among the sources.  Readers traverse by name: a child is
  the first one of that name, and a path is walked one component at a time from the
  root.  A symlink met on the way is replaced by its target, read relative to the
  directory that holds the link; at most \<open>symlink_budget\<close> links are followed.
\<close>

definition fsutils_get_child :: "dentry \<Rightarrow> string \<Rightarrow> dentry option" where
  "fsutils_get_child d nm = find (\<lambda>c. d_name c = nm) (d_children d)"

fun split_path_acc :: "string \<Rightarrow> string \<Rightarrow> string list" where
  "split_path_acc acc [] = (if acc = [] then [] else [acc])"
| "split_path_acc acc (c # cs) =
     (if c = CHR ''/'' then (if acc = [] then [] else [acc]) @ split_path_acc [] cs
      else split_path_acc (acc @ [c]) cs)"

definition split_path :: "string \<Rightarrow> string list" where
  "split_path p = split_path_acc [] p"

definition symlink_budget :: nat where
  "symlink_budget = 8"

fun walk_path :: "nat \<Rightarrow> dentry list \<Rightarrow> string list \<Rightarrow> dentry option" where
  "walk_path fuel [] cs = None"
| "walk_path fuel (d # up) [] = Some d"
| "walk_path fuel (d # up) (c # cs) =
     (if c = ''..'' then walk_path fuel (if up = [] then [d] else up) cs
      else case fsutils_get_child d c of
             None \<Rightarrow> None
           | Some e \<Rightarrow>
               if S_ISLNK (d_mode e)
               then (case fuel of
                       0 \<Rightarrow> None
                     | Suc k \<Rightarrow> walk_path k (d # up) (split_path (d_contents e) @ cs))
               else walk_path fuel (e # d # up) cs)"

definition fsutils_get_dentry :: "dentry \<Rightarrow> string \<Rightarrow> dentry option" where
  "fsutils_get_dentry root path = walk_path symlink_budget [root] (split_path path)"

section \<open>DSM-CC compatibility descriptor\<close>

text \<open>
  Modelled from the spec: the structures of the compatibility descriptor in
  \<^verbatim>\<open>tables/dsmcc.h\<close>, which is not among the sources, with the fields and widths the
  spec lists.
\<close>

record dsmcc_sub_descriptor =
  sub_descriptor_type :: u8
  sub_descriptor_length :: u8
  additional_information :: "u8 list"

record dsmcc_descriptor_entry =
  descriptor_type :: u8
  descriptor_length :: u8
  specifier_type :: u8
  specifier_data :: "u8 list"
  model :: u16
  version :: u16
  sub_descriptor_count :: u8
  sub_descriptors :: "dsmcc_sub_descriptor list"

record dsmcc_compatibility_descriptor =
  compatibility_descriptor_length :: u16
  descriptor_count :: u16
  descriptors :: "dsmcc_descriptor_entry list"

text \<open>
  \<^verbatim>\<open>dsmcc_create_compatibility_descriptor_dentries\<close>: the parent with the children
  the function appends.  In the source \<^verbatim>\<open>cd->descriptors\<close> is the array of descriptors and every \<^verbatim>\<open>cd->descriptors->field\<close> of the loop body reads
  its first element, whatever \<^verbatim>\<open>i\<close> is: \<open>descriptors cd ! 0\<close> here.  The arrays hold at
  least as many elements as their counts say, as the parser that fills them allocates
  them.
\<close>

definition sub_descriptor_dentry :: "dsmcc_descriptor_entry \<Rightarrow> nat \<Rightarrow> dentry" where
  "sub_descriptor_dentry d k =
     (let sub = sub_descriptors d ! k
      in CREATE_DIRECTORY (''sub_descriptor_'' @ fmt_02d (k + 1))
           ([CREATE_FILE_NUMBER ''sub_descriptor_type'' (unat (sub_descriptor_type sub)),
             CREATE_FILE_NUMBER ''sub_descriptor_length'' (unat (sub_descriptor_length sub))] @
            (if sub_descriptor_length sub \<noteq> 0
             then [CREATE_FILE_BIN ''additional_information'' (additional_information sub)
                     (unat (sub_descriptor_length sub))]
             else [])))"

definition descriptor_dentry :: "dsmcc_compatibility_descriptor \<Rightarrow> nat \<Rightarrow> dentry" where
  "descriptor_dentry cd i =
     (let d = descriptors cd ! 0
      in CREATE_DIRECTORY (''descriptor_'' @ fmt_02d (i + 1))
           ([CREATE_FILE_NUMBER ''descriptor_type'' (unat (descriptor_type d)),
             CREATE_FILE_NUMBER ''descriptor_length'' (unat (descriptor_length d)),
             CREATE_FILE_NUMBER ''specifier_type'' (unat (specifier_type d)),
             CREATE_FILE_BIN ''specifier_data'' (specifier_data d) 3,
             CREATE_FILE_NUMBER ''model'' (unat (model d)),
             CREATE_FILE_NUMBER ''version'' (unat (version d)),
             CREATE_FILE_NUMBER ''sub_descriptor_count'' (unat (sub_descriptor_count d))] @
            map (sub_descriptor_dentry d) [0 ..< unat (sub_descriptor_count d)]))"

definition dsmcc_create_compatibility_descriptor_dentries ::
  "dsmcc_compatibility_descriptor \<Rightarrow> dentry \<Rightarrow> dentry" where
  "dsmcc_create_compatibility_descriptor_dentries cd parent =
     Dentry (d_name parent) (d_mode parent) (d_inode parent) (d_contents parent)
       (d_children parent @
        [CREATE_FILE_NUMBER ''compatibility_descriptor_length''
           (unat (compatibility_descriptor_length cd)),
         CREATE_FILE_NUMBER ''descriptor_count'' (unat (descriptor_count cd))] @
        map (descriptor_dentry cd) [0 ..< unat (descriptor_count cd)])"

text \<open>
  What the spec describes: the directory of descriptor \<open>i\<close> shows that descriptor's own
  fields and sub-descriptors.  It differs from \<open>descriptor_dentry\<close> in the element read
  only.
\<close>

definition descriptor_dentry_spec :: "dsmcc_compatibility_descriptor \<Rightarrow> nat \<Rightarrow> dentry" where
  "descriptor_dentry_spec cd i =
     (let d = descriptors cd ! i
      in CREATE_DIRECTORY (''descriptor_'' @ fmt_02d (i + 1))
           ([CREATE_FILE_NUMBER ''descriptor_type'' (unat (descriptor_type d)),
             CREATE_FILE_NUMBER ''descriptor_length'' (unat (descriptor_length d)),
             CREATE_FILE_NUMBER ''specifier_type'' (unat (specifier_type d)),
             CREATE_FILE_BIN ''specifier_data'' (specifier_data d) 3,
             CREATE_FILE_NUMBER ''model'' (unat (model d)),
             CREATE_FILE_NUMBER ''version'' (unat (version d)),
             CREATE_FILE_NUMBER ''sub_descriptor_count'' (unat (sub_descriptor_count d))] @
            map (sub_descriptor_dentry d) [0 ..< unat (sub_descriptor_count d)]))"

text \<open>The names of the children of a dentry that are directories.\<close>

definition subdirectory_names :: "dentry \<Rightarrow> string list" where
  "subdirectory_names d = map d_name (filter (\<lambda>c. S_ISDIR (d_mode c)) (d_children d))"

section \<open>PSI common header\<close>

text \<open>
  Modelled from the spec: the common header of \<^verbatim>\<open>tables/psi.h\<close>, which is not among the
  sources, with the fields the spec lists for a table object.  \<open>transport_stream_id\<close>
  is the two-byte field after the section length, under the name it has in a PAT.
\<close>

record psi_common_header =
  table_id :: u8
  section_syntax_indicator :: "1 word"
  section_length :: "12 word"
  transport_stream_id :: u16
  version_number :: "5 word"
  current_next_indicator :: "1 word"
  section_number :: u8
  last_section_number :: u8

text \<open>
  Modelled from the spec: CRC32/MPEG2 (polynomial 0x04C11DB7, initial value 0xFFFFFFFF,
  no reflection, no final XOR), most significant bit first: a byte enters at the top of
  the register, which then shifts eight times.
\<close>

definition crc32_shift :: "u32 \<Rightarrow> u32" where
  "crc32_shift c = (if bit c 31 then push_bit 1 c XOR 0x04C11DB7 else push_bit 1 c)"

definition crc32_byte :: "u32 \<Rightarrow> u8 \<Rightarrow> u32" where
  "crc32_byte c b =
     crc32_shift (crc32_shift (crc32_shift (crc32_shift (crc32_shift (crc32_shift
       (crc32_shift (crc32_shift (c XOR push_bit 24 (ucast b)))))))))"

definition crc32 :: "u8 list \<Rightarrow> u32" where
  "crc32 bs = foldl crc32_byte 0xFFFFFFFF bs"

definition TS_LAST_TABLE_ID :: u8 where
  "TS_LAST_TABLE_ID = 0xBF"

text \<open>
  Modelled from the spec: \<^verbatim>\<open>psi_parse\<close> of \<^verbatim>\<open>tables/psi.c\<close>, which is not among the
  sources.  It decodes the eight bytes common to all PSI sections and fails (\<open>None\<close>, a
  negative return value) when the table id is beyond \<^verbatim>\<open>TS_LAST_TABLE_ID\<close>, when the
  payload is shorter than the section it declares, or when the CRC32 over the whole
  section, its last four bytes included, does not vanish.
\<close>

definition psi_parse :: "payload \<Rightarrow> nat \<Rightarrow> psi_common_header option" where
  "psi_parse p payload_len =
     (let slen = (ucast (CONVERT_TO_16 (p 1) (p 2) AND 0x0fff) :: 12 word)
      in if p 0 > TS_LAST_TABLE_ID then None
         else if payload_len < 3 + unat slen then None
         else if crc32 (payload_bytes p 0 (3 + unat slen)) \<noteq> 0 then None
         else Some \<lparr> table_id = p 0,
                     section_syntax_indicator = ucast (drop_bit 7 (p 1)),
                     section_length = slen,
                     transport_stream_id = CONVERT_TO_16 (p 3) (p 4),
                     version_number = ucast (drop_bit 1 (p 5)),
                     current_next_indicator = ucast (p 5),
                     section_number = p 6,
                     last_section_number = p 7 \<rparr>)"

section \<open>Transport stream header and the table hash key\<close>

record ts_header =
  sync_byte :: u8
  transport_error_indicator :: "1 word"
  payload_unit_start_indicator :: "1 word"
  transport_priority :: "1 word"
  pid :: "13 word"
  transport_scrambling_control :: "2 word"
  adaptation_field :: "2 word"
  continuity_counter :: "4 word"

text \<open>
  \<^verbatim>\<open>TS_PACKET_HASH_KEY\<close>: the bit field \<^verbatim>\<open>pid\<close> and the table id are promoted to
  \<^verbatim>\<open>int\<close>; the value is below \<open>2 ^ 21\<close>, so 32 bits hold it whatever the sign.
\<close>

definition TS_PACKET_HASH_KEY :: "ts_header \<Rightarrow> 'a psi_common_header_scheme \<Rightarrow> u32" where
  "TS_PACKET_HASH_KEY ts_hdr packet_hdr =
     push_bit 8 (ucast (pid ts_hdr) AND 0xffff) OR ucast (table_id packet_hdr)"

section \<open>PAT table, hash tables and the private data\<close>

text \<open>
  Modelled from the spec: the structures of \<^verbatim>\<open>tables/pat.h\<close>, which is not among the
  sources.  A program entry is \<^verbatim>\<open>{program_number: u16, reserved:3, pid:13}\<close>; a PAT table
  starts with the members of the common header, so that the cast of the source to
  \<^verbatim>\<open>struct psi_common_header *\<close> reads them.  \<open>num_programs\<close> has the 16 bits of the
  loop counters that run up to it.  \<open>dentry\<close> is the pointer to the top dentry: the
  address of that dentry.
\<close>

record pat_program =
  program_number :: u16
  program_reserved :: "3 word"
  program_pid :: "13 word"

record pat_table = psi_common_header +
  programs :: "pat_program list"
  num_programs :: u16
  dentry :: nat

text \<open>The parsers a PID can be bound to: the function pointers kept in \<^verbatim>\<open>psi_parsers\<close>.\<close>

datatype parse_function = pat_parse_fn | pmt_parse | nit_parse | other_parse nat

text \<open>
  Modelled from the spec: \<^verbatim>\<open>struct demuxfs_data\<close> of \<^verbatim>\<open>demuxfs.h\<close>, which is not among
  the sources.  \<open>root_entries\<close> are the children of \<^verbatim>\<open>priv->root\<close> in the order of their
  creation, each with the address of its dentry: these are the dentries the table
  objects point to.  The hash tables are maps from integer keys.  Every table object
  starts with the common header and has a top dentry, so \<open>psi_tables\<close> holds them as
  \<open>pat_table\<close>, as the cast of the source reads them.
\<close>

record demuxfs_data =
  root_entries :: "(nat \<times> dentry) list"
  psi_tables :: "nat \<rightharpoonup> pat_table"
  psi_parsers :: "nat \<rightharpoonup> parse_function"

definition root :: "demuxfs_data \<Rightarrow> dentry" where
  "root priv = Dentry ''/'' (S_IFDIR OR perm_0555) 0 [] (map snd (root_entries priv))"

text \<open>
  Modelled from the spec: \<^verbatim>\<open>hashtable_get\<close>, \<^verbatim>\<open>hashtable_add\<close> and \<^verbatim>\<open>hashtable_del\<close> of
  \<^verbatim>\<open>hash.c\<close>, which is not among the sources: integer-keyed maps whose writes replace
  entries.
\<close>

definition hashtable_get :: "(nat \<rightharpoonup> 'v) \<Rightarrow> nat \<Rightarrow> 'v option" where
  "hashtable_get t k = t k"

definition hashtable_add :: "(nat \<rightharpoonup> 'v) \<Rightarrow> nat \<Rightarrow> 'v \<Rightarrow> (nat \<rightharpoonup> 'v)" where
  "hashtable_add t k v = t(k \<mapsto> v)"

definition hashtable_del :: "(nat \<rightharpoonup> 'v) \<Rightarrow> nat \<Rightarrow> (nat \<rightharpoonup> 'v)" where
  "hashtable_del t k = t(k := None)"

text \<open>Modelled from the spec: the names of \<^verbatim>\<open>fsutils.h\<close>, which is not among the sources.\<close>

definition FS_PAT_NAME :: string where "FS_PAT_NAME = ''PAT''"
definition FS_PMT_NAME :: string where "FS_PMT_NAME = ''PMT''"
definition FS_NIT_NAME :: string where "FS_NIT_NAME = ''NIT''"
definition FS_CURRENT_NAME :: string where "FS_CURRENT_NAME = ''Current''"
definition FS_PROGRAMS_NAME :: string where "FS_PROGRAMS_NAME = ''Programs''"

section \<open>pat\_announces\_service\<close>

text \<open>
  \<^verbatim>\<open>pat_announces_service\<close>: the result, the warnings it logs and the private data it
  leaves.
\<close>

definition pat_announces_service ::
  "u16 \<Rightarrow> demuxfs_data \<Rightarrow> bool \<times> string list \<times> demuxfs_data" where
  "pat_announces_service service_id priv =
     (let buf = ''/'' @ FS_PAT_NAME @ ''/'' @ FS_CURRENT_NAME @ ''/'' @ FS_PROGRAMS_NAME
      in case fsutils_get_dentry (root priv) buf of
           None \<Rightarrow> (False, [buf @ '' doesn't exit''], priv)
         | Some pat_programs \<Rightarrow>
             (case fsutils_get_child pat_programs (fmt_hash_04x (unat service_id)) of
                Some c \<Rightarrow> (True, [], priv)
              | None \<Rightarrow> (False, [], priv)))"

section \<open>pat\_populate\<close>

text \<open>
  One round of the loop of \<^verbatim>\<open>pat_populate\<close>: the symlink it creates for a program and
  the parsers it leaves.  \<^verbatim>\<open>existing_parser\<close> is looked up in \<^verbatim>\<open>psi_tables\<close> under the
  PID, as the source does.  Neither depends on what the other has done in earlier
  rounds.
\<close>

definition pat_program_symlink :: "pat_program \<Rightarrow> dentry" where
  "pat_program_symlink prog =
     (let pid = unat (program_pid prog);
          name = fmt_hash_04x (unat (program_number prog))
      in if program_number prog = 0
         then CREATE_SYMLINK name (''../../../'' @ FS_NIT_NAME @ ''/'' @ FS_CURRENT_NAME)
         else CREATE_SYMLINK name
                (''../../../'' @ FS_PMT_NAME @ ''/'' @ fmt_hash_04x pid @ ''/'' @ FS_CURRENT_NAME))"

definition pat_program_register ::
  "(nat \<rightharpoonup> pat_table) \<Rightarrow> pat_program \<Rightarrow> (nat \<rightharpoonup> parse_function) \<Rightarrow> (nat \<rightharpoonup> parse_function)" where
  "pat_program_register tables prog parsers =
     (let pid = unat (program_pid prog);
          existing_parser = hashtable_get tables pid
      in if program_number prog = 0
         then (if existing_parser = None then hashtable_add parsers pid nit_parse else parsers)
         else (if existing_parser = None then hashtable_add parsers pid pmt_parse else parsers))"

text \<open>
  \<^verbatim>\<open>pat_populate\<close>: the \<^verbatim>\<open>Programs\<close> directory it creates under its parent, with one
  symlink for each program in order, and the parsers after the loop.
\<close>

definition pat_populate ::
  "pat_table \<Rightarrow> demuxfs_data \<Rightarrow> dentry \<times> (nat \<rightharpoonup> parse_function)" where
  "pat_populate pat priv =
     (CREATE_DIRECTORY FS_PROGRAMS_NAME (map pat_program_symlink (programs pat)),
      foldl (\<lambda>parsers prog. pat_program_register (psi_tables priv) prog parsers)
        (psi_parsers priv) (programs pat))"

section \<open>Version directories, migration and disposal\<close>

definition set_children :: "dentry \<Rightarrow> dentry list \<Rightarrow> dentry" where
  "set_children d cs = Dentry (d_name d) (d_mode d) (d_inode d) (d_contents d) cs"

text \<open>
  Modelled from the spec: \<^verbatim>\<open>fsutils_create_version_dir\<close> of \<^verbatim>\<open>fsutils.c\<close>, which is not
  among the sources.  It creates under the parent a child named \<^verbatim>\<open>V%02d\<close> and makes the
  sibling symlink \<^verbatim>\<open>Current\<close> point to it, replacing any prior one.  The source fills
  the version directory it gets back; here its children are the last argument.
\<close>

definition fsutils_create_version_dir :: "dentry \<Rightarrow> nat \<Rightarrow> dentry list \<Rightarrow> dentry" where
  "fsutils_create_version_dir parent vers cs =
     set_children parent
       (filter (\<lambda>c. d_name c \<noteq> FS_CURRENT_NAME) (d_children parent) @
        [CREATE_DIRECTORY (''V'' @ fmt_02d vers) cs,
         CREATE_SYMLINK FS_CURRENT_NAME (''V'' @ fmt_02d vers)])"

text \<open>
  Modelled from the spec: \<^verbatim>\<open>psi_populate\<close> of \<^verbatim>\<open>tables/psi.c\<close>, which is not among the
  sources: one numeric leaf for every field of the common header.
\<close>

definition psi_populate :: "'a psi_common_header_scheme \<Rightarrow> dentry list" where
  "psi_populate h =
     [CREATE_FILE_NUMBER ''table_id'' (unat (table_id h)),
      CREATE_FILE_NUMBER ''section_syntax_indicator'' (unat (section_syntax_indicator h)),
      CREATE_FILE_NUMBER ''section_length'' (unat (section_length h)),
      CREATE_FILE_NUMBER ''transport_stream_id'' (unat (transport_stream_id h)),
      CREATE_FILE_NUMBER ''version_number'' (unat (version_number h)),
      CREATE_FILE_NUMBER ''current_next_indicator'' (unat (current_next_indicator h)),
      CREATE_FILE_NUMBER ''section_number'' (unat (section_number h)),
      CREATE_FILE_NUMBER ''last_section_number'' (unat (last_section_number h))]"

text \<open>
  Modelled from the spec: \<^verbatim>\<open>fsutils_migrate_children\<close> of \<^verbatim>\<open>fsutils.c\<close>, which is not
  among the sources.  It iterates the children of the old dentry; a child whose name the
  new dentry does not have yet moves to the new dentry, the others stay in the old one.
  The result is the old and the new dentry afterwards.
\<close>

fun migrate_loop :: "dentry list \<Rightarrow> dentry list \<Rightarrow> dentry list \<Rightarrow> dentry list \<times> dentry list" where
  "migrate_loop [] kept new_cs = (kept, new_cs)"
| "migrate_loop (c # cs) kept new_cs =
     (if find (\<lambda>x. d_name x = d_name c) new_cs = None
      then migrate_loop cs kept (new_cs @ [c])
      else migrate_loop cs (kept @ [c]) new_cs)"

definition fsutils_migrate_children :: "dentry \<Rightarrow> dentry \<Rightarrow> dentry \<times> dentry" where
  "fsutils_migrate_children old_root new_root =
     (case migrate_loop (d_children old_root) [] (d_children new_root) of
        (kept, new_cs) \<Rightarrow> (set_children old_root kept, set_children new_root new_cs))"

text \<open>
  The dentries under the root by their addresses.  \<open>calloc_addr\<close> is the address
  \<^verbatim>\<open>calloc\<close> returns for a new dentry: one that no live dentry has.
\<close>

definition entry_at :: "(nat \<times> dentry) list \<Rightarrow> nat \<Rightarrow> dentry option" where
  "entry_at es a = map_of es a"

definition set_entry :: "(nat \<times> dentry) list \<Rightarrow> nat \<Rightarrow> dentry \<Rightarrow> (nat \<times> dentry) list" where
  "set_entry es a d = map (\<lambda>e. if fst e = a then (a, d) else e) es"

definition calloc_addr :: "demuxfs_data \<Rightarrow> nat" where
  "calloc_addr priv = Suc (foldr max (map fst (root_entries priv)) 0)"

text \<open>
  Modelled from the spec: the macro \<^verbatim>\<open>CREATE_COMMON\<close> of \<^verbatim>\<open>fsutils.h\<close>, which is not
  among the sources.  It links a dentry under its parent, here the root, as the last
  child.
\<close>

definition CREATE_COMMON :: "(nat \<times> dentry) list \<Rightarrow> nat \<Rightarrow> dentry \<Rightarrow> (nat \<times> dentry) list" where
  "CREATE_COMMON es a d = es @ [(a, d)]"

text \<open>
  \<^verbatim>\<open>fsutils_migrate_children\<close> on two dentries given by their addresses.  Where one of
  them is not live the source reads freed memory; the tree is left as it is here.
\<close>

definition migrate_entries :: "nat \<Rightarrow> nat \<Rightarrow> (nat \<times> dentry) list \<Rightarrow> (nat \<times> dentry) list" where
  "migrate_entries old_a new_a es =
     (case (entry_at es old_a, entry_at es new_a) of
        (Some old_root, Some new_root) \<Rightarrow>
          (case fsutils_migrate_children old_root new_root of
             (old', new') \<Rightarrow> set_entry (set_entry es old_a old') new_a new')
      | _ \<Rightarrow> es)"

text \<open>
  Modelled from the spec: \<^verbatim>\<open>fsutils_dispose_tree\<close> of \<^verbatim>\<open>fsutils.c\<close>, which is not among
  the sources.  It unlinks the dentry at the address from the root and frees it with
  its tree, as \<^verbatim>\<open>pat_free\<close> relies on.
\<close>

definition fsutils_dispose_tree :: "nat \<Rightarrow> (nat \<times> dentry) list \<Rightarrow> (nat \<times> dentry) list" where
  "fsutils_dispose_tree a es = filter (\<lambda>e. fst e \<noteq> a) es"

section \<open>pat\_create\_directory and pat\_parse\<close>

text \<open>
  \<^verbatim>\<open>pat_create_directory\<close>.  The second argument is the dentry \<^verbatim>\<open>pat->dentry\<close> points
  to, as \<^verbatim>\<open>pat_parse\<close> left it.
\<close>

definition pat_create_directory :: "pat_table \<Rightarrow> dentry \<Rightarrow> demuxfs_data \<Rightarrow> demuxfs_data" where
  "pat_create_directory pat pat_dentry priv =
     (let top = Dentry FS_PAT_NAME (S_IFDIR OR perm_0555) (d_inode pat_dentry)
                  (d_contents pat_dentry) (d_children pat_dentry);
          populated = pat_populate pat priv;
          top' = fsutils_create_version_dir top (unat (version_number pat))
                   (psi_populate pat @ [fst populated])
      in priv\<lparr> root_entries := CREATE_COMMON (root_entries priv) (dentry pat) top',
               psi_parsers := snd populated \<rparr>)"

text \<open>
  The number of programs: the subtraction and the division are those of C on \<^verbatim>\<open>int\<close>
  (the division truncates towards zero), the result is stored in 16 bits.
\<close>

definition pat_num_programs :: "12 word \<Rightarrow> u16" where
  "pat_num_programs slen = word_of_int ((uint slen - 2 - 1 - 1 - 1 - 4) sdiv 4)"

text \<open>
  One round of the loop that decodes the programs.  \<^verbatim>\<open>offset\<close> has 16 bits;
  \<^verbatim>\<open>payload[offset+2]\<close> is a \<^verbatim>\<open>char\<close>, promoted to \<^verbatim>\<open>int\<close> with its sign and shifted
  arithmetically, and the three bits of \<^verbatim>\<open>reserved\<close> keep the low bits of the result.
\<close>

definition pat_parse_program :: "payload \<Rightarrow> u16 \<Rightarrow> pat_program" where
  "pat_parse_program p i =
     (let offset = uint (8 + i * 4)
      in \<lparr> program_number = CONVERT_TO_16 (p offset) (p (offset + 1)),
           program_reserved = word_of_int (drop_bit 4 (sint (p (offset + 2)))),
           program_pid = ucast (CONVERT_TO_16 (p (offset + 2)) (p (offset + 3)) AND 0x1fff) \<rparr>)"

definition pat_of_header ::
  "psi_common_header \<Rightarrow> pat_program list \<Rightarrow> u16 \<Rightarrow> nat \<Rightarrow> pat_table" where
  "pat_of_header h progs n a =
     \<lparr> table_id = table_id h,
       section_syntax_indicator = section_syntax_indicator h,
       section_length = section_length h,
       transport_stream_id = transport_stream_id h,
       version_number = version_number h,
       current_next_indicator = current_next_indicator h,
       section_number = section_number h,
       last_section_number = last_section_number h,
       programs = progs, num_programs = n, dentry = a \<rparr>"

text \<open>
  The supersession branch of \<^verbatim>\<open>pat_parse\<close>.  The source reads
  \<^verbatim>\<open>current_pat->dentry->inode\<close> after \<^verbatim>\<open>fsutils_dispose_tree\<close> has freed that dentry:
  \<open>freed_inode\<close> is the value it finds there.
\<close>

definition pat_supersede :: "nat \<Rightarrow> pat_table \<Rightarrow> pat_table \<Rightarrow> demuxfs_data \<Rightarrow> demuxfs_data" where
  "pat_supersede freed_inode current_pat pat priv =
     (let migrated = migrate_entries (dentry current_pat) (dentry pat) (root_entries priv);
          disposed = fsutils_dispose_tree (dentry current_pat) migrated
      in priv\<lparr> root_entries := disposed,
               psi_tables := hashtable_del (psi_tables priv) freed_inode \<rparr>)"

text \<open>
  \<^verbatim>\<open>pat_parse\<close>: the return value and the private data afterwards.  The allocations
  succeed.
\<close>

definition pat_parse ::
  "nat \<Rightarrow> ts_header \<Rightarrow> payload \<Rightarrow> nat \<Rightarrow> demuxfs_data \<Rightarrow> int \<times> demuxfs_data" where
  "pat_parse freed_inode header p payload_len priv =
     (case psi_parse p payload_len of
        None \<Rightarrow> (0, priv)
      | Some hdr \<Rightarrow>
          (let inode = unat (TS_PACKET_HASH_KEY header hdr);
               pat_dentry = Dentry [] 0 inode [] [];
               current_pat = hashtable_get (psi_tables priv) inode
           in if current_next_indicator hdr = 0 \<or>
                 (case current_pat of
                    Some c \<Rightarrow> version_number c = version_number hdr
                  | None \<Rightarrow> False)
              then (0, priv)
              else
                (let n = pat_num_programs (section_length hdr);
                     pat = pat_of_header hdr
                             (map (\<lambda>i. pat_parse_program p (word_of_nat i)) [0 ..< unat n])
                             n (calloc_addr priv);
                     priv1 = pat_create_directory pat pat_dentry priv;
                     priv2 = (case current_pat of
                                Some c \<Rightarrow> pat_supersede freed_inode c pat priv1
                              | None \<Rightarrow> priv1)
                 in (0, priv2\<lparr> psi_tables := hashtable_add (psi_tables priv2) inode pat \<rparr>))))"

text \<open>
  The three conditions under which \<^verbatim>\<open>pat_parse\<close> drops a section, as the spec words
  them: \<^verbatim>\<open>psi_parse\<close> fails, the current/next indicator is 0, or \<^verbatim>\<open>psi_tables\<close> holds
  under the key of the section an entry of the same version.
\<close>

definition pat_discards :: "ts_header \<Rightarrow> payload \<Rightarrow> nat \<Rightarrow> demuxfs_data \<Rightarrow> bool" where
  "pat_discards header p payload_len priv =
     (case psi_parse p payload_len of
        None \<Rightarrow> True
      | Some hdr \<Rightarrow>
          current_next_indicator hdr = 0 \<or>
          (case psi_tables priv (unat (TS_PACKET_HASH_KEY header hdr)) of
             Some c \<Rightarrow> version_number c = version_number hdr
           | None \<Rightarrow> False))"

text \<open>The table object \<^verbatim>\<open>pat_parse\<close> builds from a section it accepts.\<close>

definition pat_built :: "payload \<Rightarrow> psi_common_header \<Rightarrow> demuxfs_data \<Rightarrow> pat_table" where
  "pat_built p hdr priv =
     pat_of_header hdr
       (map (\<lambda>i. pat_parse_program p (word_of_nat i))
          [0 ..< unat (pat_num_programs (section_length hdr))])
       (pat_num_programs (section_length hdr)) (calloc_addr priv)"

text \<open>
  The top dentry \<^verbatim>\<open>pat_create_directory\<close> links under the root for a table object,
  before any migration: the directory \<^verbatim>\<open>PAT\<close> with the version directory and the
  \<^verbatim>\<open>Current\<close> symlink.
\<close>

definition pat_top_dentry :: "pat_table \<Rightarrow> nat \<Rightarrow> demuxfs_data \<Rightarrow> dentry" where
  "pat_top_dentry pat inode priv =
     fsutils_create_version_dir (Dentry FS_PAT_NAME (S_IFDIR OR perm_0555) inode [] [])
       (unat (version_number pat)) (psi_populate pat @ [fst (pat_populate pat priv)])"

text \<open>
  The table object a section supersedes, if any, points to a dentry that is linked
  under the root.
\<close>

definition current_pat_live :: "ts_header \<Rightarrow> psi_common_header \<Rightarrow> demuxfs_data \<Rightarrow> bool" where
  "current_pat_live header hdr priv =
     (case psi_tables priv (unat (TS_PACKET_HASH_KEY header hdr)) of
        None \<Rightarrow> True
      | Some c \<Rightarrow> entry_at (root_entries priv) (dentry c) \<noteq> None)"

section \<open>Sample inputs\<close>

text \<open>A transport stream header on PID 0 and the private data before any section.\<close>

definition ts_header_pid0 :: ts_header where
  "ts_header_pid0 =
     \<lparr> sync_byte = 0x47, transport_error_indicator = 0, payload_unit_start_indicator = 1,
       transport_priority = 0, pid = 0, transport_scrambling_control = 0,
       adaptation_field = 1, continuity_counter = 0 \<rparr>"

definition priv_empty :: demuxfs_data where
  "priv_empty = \<lparr> root_entries = [], psi_tables = Map.empty, psi_parsers = Map.empty \<rparr>"

text \<open>
  PAT sections with a valid CRC32: version 0 with program 1 on PID 0x100, version 1
  with program 2 on PID 0x101, and version 0 with program 1 on PID 0x1040; the common
  headers of the first two.
\<close>

definition section_v0 :: "u8 list" where
  "section_v0 = [0x00, 0xB0, 0x0D, 0x00, 0x01, 0xC1, 0x00, 0x00,
                 0x00, 0x01, 0xE1, 0x00, 0xE8, 0xF9, 0x5E, 0x7D]"

definition header_v0 :: psi_common_header where
  "header_v0 =
     \<lparr> table_id = 0, section_syntax_indicator = 1, section_length = 13,
       transport_stream_id = 1, version_number = 0, current_next_indicator = 1,
       section_number = 0, last_section_number = 0 \<rparr>"

definition header_v1 :: psi_common_header where
  "header_v1 =
     \<lparr> table_id = 0, section_syntax_indicator = 1, section_length = 13,
       transport_stream_id = 1, version_number = 1, current_next_indicator = 1,
       section_number = 0, last_section_number = 0 \<rparr>"

definition section_v1 :: "u8 list" where
  "section_v1 = [0x00, 0xB0, 0x0D, 0x00, 0x01, 0xC3, 0x00, 0x00,
                 0x00, 0x02, 0xE1, 0x01, 0x70, 0xFF, 0x66, 0x61]"

definition section_pid_1040 :: "u8 list" where
  "section_pid_1040 = [0x00, 0xB0, 0x0D, 0x00, 0x01, 0xC1, 0x00, 0x00,
                       0x00, 0x01, 0xF0, 0x40, 0x1E, 0x37, 0x74, 0xC5]"

text \<open>
  The tree \<^verbatim>\<open>PAT\<close> that the section \<open>section_v0\<close> gives: the version directory with the
  leaves of the common header and the \<^verbatim>\<open>Programs\<close> directory, and the \<^verbatim>\<open>Current\<close>
  symlink.
\<close>

definition pat_tree_v0 :: dentry where
  "pat_tree_v0 =
     Dentry ''PAT'' (S_IFDIR OR perm_0555) 0 []
       [CREATE_DIRECTORY ''V00''
          [CREATE_FILE_NUMBER ''table_id'' 0,
           CREATE_FILE_NUMBER ''section_syntax_indicator'' 1,
           CREATE_FILE_NUMBER ''section_length'' 13,
           CREATE_FILE_NUMBER ''transport_stream_id'' 1,
           CREATE_FILE_NUMBER ''version_number'' 0,
           CREATE_FILE_NUMBER ''current_next_indicator'' 1,
           CREATE_FILE_NUMBER ''section_number'' 0,
           CREATE_FILE_NUMBER ''last_section_number'' 0,
           CREATE_DIRECTORY ''Programs''
             [CREATE_SYMLINK ''0x01'' ''../../../PMT/0x100/Current'']],
        CREATE_SYMLINK ''Current'' ''V00'']"

text \<open>
  The private data once a NIT (table id 0x40 on PID 0x10) has been parsed: its table
  object is in \<^verbatim>\<open>psi_tables\<close> under the key 0x1040.
\<close>

definition nit_table :: pat_table where
  "nit_table =
     \<lparr> table_id = 0x40, section_syntax_indicator = 1, section_length = 13,
       transport_stream_id = 1, version_number = 0, current_next_indicator = 1,
       section_number = 0, last_section_number = 0,
       programs = [], num_programs = 0, dentry = 1 \<rparr>"

definition priv_with_nit :: demuxfs_data where
  "priv_with_nit =
     \<lparr> root_entries = [(1, Dentry FS_NIT_NAME (S_IFDIR OR perm_0555) 0x1040 [] [])],
       psi_tables = [0x1040 \<mapsto> nit_table],
       psi_parsers = [0 \<mapsto> pat_parse_fn, 0x10 \<mapsto> nit_parse] \<rparr>"



text \<open>
  A compatibility descriptor with two descriptors: the first has one sub-descriptor,
  the second has none.
\<close>

definition cd_two :: dsmcc_compatibility_descriptor where
  "cd_two =
     \<lparr> compatibility_descriptor_length = 24, descriptor_count = 2,
       descriptors =
         [\<lparr> descriptor_type = 1, descriptor_length = 12, specifier_type = 1,
             specifier_data = [0, 1, 2], model = 3, version = 4, sub_descriptor_count = 1,
             sub_descriptors =
               [\<lparr> sub_descriptor_type = 9, sub_descriptor_length = 2,
                   additional_information = [10, 11] \<rparr>] \<rparr>,
          \<lparr> descriptor_type = 2, descriptor_length = 8, specifier_type = 1,
             specifier_data = [0, 1, 2], model = 5, version = 6, sub_descriptor_count = 0,
             sub_descriptors = [] \<rparr>] \<rparr>"

text \<open>
  A DSM-CC message whose header declares one adaptation byte; the bytes at offsets 12
  and 13 are 0xAA and 0xBB.
\<close>

definition dsmcc_message :: "u8 list" where
  "dsmcc_message = [0x11, 0x03, 0x10, 0x02, 0x80, 0x00, 0x00, 0x01,
                    0xFF, 0x01, 0x00, 0x02, 0xAA, 0xBB]"

section \<open>Big-endian extraction: the values\<close>

lemma or_cat16: "push_bit 8 (ucast (a::u8)) OR ucast (b::u8) = (word_cat a b :: u16)"
  by (rule bit_word_eqI) (auto simp: bit_simps dest: bit_imp_le_length)

lemma or_cat32_hi:
  "push_bit 24 (ucast (a::u8)) OR push_bit 16 (ucast (b::u8)) =
     (push_bit 16 (ucast (word_cat a b :: u16)) :: u32)"
  by (rule bit_word_eqI) (auto simp: bit_simps dest: bit_imp_le_length)

lemma or_cat32_lo:
  "push_bit 8 (ucast (a::u8)) OR ucast (b::u8) = (ucast (word_cat a b :: u16) :: u32)"
  by (rule bit_word_eqI) (auto simp: bit_simps dest: bit_imp_le_length)

lemma or_cat32: "push_bit 16 (ucast (x::u16)) OR ucast (y::u16) = (word_cat x y :: u32)"
  by (rule bit_word_eqI) (auto simp: bit_simps dest: bit_imp_le_length)

lemma uint_cat16: "uint (word_cat (a::u8) (b::u8) :: u16) = uint a * 256 + uint b"
proof -
  have a: "0 \<le> uint a" "uint a < 256" and b: "0 \<le> uint b" "uint b < 256"
    using uint_lt2p [of a] uint_lt2p [of b] by simp_all
  have "uint (word_cat a b :: u16) = (uint a * 256 mod 65536 + uint b) mod 65536"
    by (simp add: word_cat_eq uint_word_ariths uint_up_ucast is_up push_bit_eq_mult)
  also have "\<dots> = uint a * 256 + uint b"
    using a b by simp
  finally show ?thesis .
qed

lemma uint_cat32: "uint (word_cat (x::u16) (y::u16) :: u32) = uint x * 65536 + uint y"
proof -
  have x: "0 \<le> uint x" "uint x < 65536" and y: "0 \<le> uint y" "uint y < 65536"
    using uint_lt2p [of x] uint_lt2p [of y] by simp_all
  have "uint (word_cat x y :: u32) = (uint x * 65536 mod 4294967296 + uint y) mod 4294967296"
    by (simp add: word_cat_eq uint_word_ariths uint_up_ucast is_up push_bit_eq_mult)
  also have "\<dots> = uint x * 65536 + uint y"
    using x y by simp
  finally show ?thesis .
qed

lemma CONVERT_TO_16_uint: "uint (CONVERT_TO_16 a b) = uint a * 256 + uint b"
  by (simp add: CONVERT_TO_16_def or_cat16 uint_cat16)

lemma CONVERT_TO_32_uint:
  "uint (CONVERT_TO_32 a b c d) =
     uint a * 16777216 + uint b * 65536 + uint c * 256 + uint d"
proof -
  have "CONVERT_TO_32 a b c d =
          (push_bit 24 (ucast a) OR push_bit 16 (ucast b)) OR (push_bit 8 (ucast c) OR ucast d)"
    by (simp add: CONVERT_TO_32_def or.assoc)
  also have "\<dots> = word_cat (word_cat a b :: u16) (word_cat c d :: u16)"
    by (simp only: or_cat32_hi or_cat32_lo or_cat32)
  finally show ?thesis
    by (simp add: uint_cat32 uint_cat16)
qed

section \<open>DSM-CC message header: what is decoded\<close>

lemma payload_bytes_shift:
  "map (\<lambda>j. p (i + 13 + int j)) [0 ..< n] = payload_bytes p (i + 13) n"
  by (simp add: payload_bytes_def)

lemma payload_bytes_Cons:
  "p i # payload_bytes p (i + 1) n = payload_bytes p i (Suc n)"
  by (simp add: payload_bytes_def upt_rec [of 0] map_Suc_upt [symmetric] add.assoc del: upt_Suc)

text \<open>
  C7, as the spec states it, fails: with \<^verbatim>\<open>adaptation_length\<close> 1 the adaptation header
  takes two bytes of the payload, the type at offset 12 and one data byte at offset 13,
  where the claim gives the adaptation portion one byte in all.
\<close>

theorem dsmcc_adaptation_portion_counterexample:
  "adaptation_length (fst (dsmcc_parse_message_header (payload_of dsmcc_message) 0)) = 1 \<and>
   map_option adaptation_portion
     (dsmcc_adaptation_header (fst (dsmcc_parse_message_header (payload_of dsmcc_message) 0)))
     = Some [0xAA, 0xBB] \<and>
   payload_bytes (payload_of dsmcc_message) 12 1 = [0xAA] \<and>
   map_option adaptation_portion
     (dsmcc_adaptation_header (fst (dsmcc_parse_message_header (payload_of dsmcc_message) 0)))
     \<noteq> Some (payload_bytes (payload_of dsmcc_message) 12
          (unat (adaptation_length (fst (dsmcc_parse_message_header (payload_of dsmcc_message) 0)))))"
  by (simp add: dsmcc_parse_message_header_def Let_def payload_of_def dsmcc_message_def
      adaptation_portion_def payload_bytes_def)

text \<open>
  C7, amended: \<^verbatim>\<open>dsmcc_parse_message_header\<close> decodes the twelve bytes of the fixed header
  in order, big-endian, and returns \<^verbatim>\<open>index + 12\<close>; when \<^verbatim>\<open>adaptation_length\<close> is nonzero
  the adaptation type is the byte at \<^verbatim>\<open>index + 12\<close> and the data bytes are the
  \<^verbatim>\<open>adaptation_length\<close> bytes from \<^verbatim>\<open>index + 13\<close> on, so that the adaptation header holds
  \<^verbatim>\<open>adaptation_length + 1\<close> bytes of the payload; when it is zero there is no adaptation
  header.
\<close>

theorem dsmcc_parse_message_header_decodes:
  "protocol_discriminator (fst (dsmcc_parse_message_header p i)) = p i \<and>
   dsmcc_type (fst (dsmcc_parse_message_header p i)) = p (i + 1) \<and>
   uint (message_id (fst (dsmcc_parse_message_header p i))) =
     uint (p (i + 2)) * 256 + uint (p (i + 3)) \<and>
   uint (transaction_id (fst (dsmcc_parse_message_header p i))) =
     uint (p (i + 4)) * 16777216 + uint (p (i + 5)) * 65536 + uint (p (i + 6)) * 256 +
     uint (p (i + 7)) \<and>
   reserved (fst (dsmcc_parse_message_header p i)) = p (i + 8) \<and>
   adaptation_length (fst (dsmcc_parse_message_header p i)) = p (i + 9) \<and>
   uint (message_length (fst (dsmcc_parse_message_header p i))) =
     uint (p (i + 10)) * 256 + uint (p (i + 11)) \<and>
   dsmcc_adaptation_header (fst (dsmcc_parse_message_header p i)) =
     (if p (i + 9) = 0 then None
      else Some \<lparr> adaptation_type = p (i + 12),
                  adaptation_data_bytes = payload_bytes p (i + 13) (unat (p (i + 9))) \<rparr>) \<and>
   (p (i + 9) \<noteq> 0 \<longrightarrow>
      map_option adaptation_portion
        (dsmcc_adaptation_header (fst (dsmcc_parse_message_header p i))) =
      Some (payload_bytes p (i + 12) (unat (p (i + 9)) + 1))) \<and>
   snd (dsmcc_parse_message_header p i) = i + 12"
proof -
  have shift: "\<And>n. p (i + 12) # payload_bytes p (i + 13) n = payload_bytes p (i + 12) (Suc n)"
    using payload_bytes_Cons [of p "i + 12"] by (simp add: add.assoc)
  show ?thesis
    by (simp add: dsmcc_parse_message_header_def Let_def CONVERT_TO_16_uint CONVERT_TO_32_uint
        payload_bytes_shift adaptation_portion_def shift)
qed

theorem dsmcc_parse_message_header_decodes_witness:
  "payload_of dsmcc_message (0 + 9) \<noteq> 0 \<and>
   uint (message_id (fst (dsmcc_parse_message_header (payload_of dsmcc_message) 0))) = 4098 \<and>
   uint (transaction_id (fst (dsmcc_parse_message_header (payload_of dsmcc_message) 0))) =
     2147483649 \<and>
   map_option adaptation_portion
     (dsmcc_adaptation_header (fst (dsmcc_parse_message_header (payload_of dsmcc_message) 0))) =
   Some [0xAA, 0xBB] \<and>
   snd (dsmcc_parse_message_header (payload_of dsmcc_message) 0) = 12"
  using dsmcc_parse_message_header_decodes [of "payload_of dsmcc_message" 0]
  by (auto simp add: payload_of_def dsmcc_message_def payload_bytes_def adaptation_portion_def)

section \<open>PAT programs: what is decoded\<close>

lemma program_reserved_bits:
  "(word_of_int (drop_bit 4 (sint (b::u8))) :: 3 word) = ucast (drop_bit 4 b)"
  by (rule bit_word_eqI) (auto simp: bit_simps)

lemma program_pid_uint:
  "uint (ucast (CONVERT_TO_16 a b AND 0x1fff) :: 13 word) = (uint a mod 32) * 256 + uint b"
proof -
  have m: "(0x1fff :: u16) = mask 13"
    by (simp add: mask_eq_exp_minus_1)
  have b: "0 \<le> uint b" "uint b < 256"
    using uint_lt2p [of b] by simp_all
  have "uint (ucast (CONVERT_TO_16 a b AND 0x1fff) :: 13 word) = uint (CONVERT_TO_16 a b) mod 8192"
    unfolding m
    by (simp add: unsigned_ucast_eq unsigned_take_bit_eq flip: take_bit_eq_mask)
      (simp add: take_bit_eq_mod)
  also have "\<dots> = (uint a * 256 + uint b) mod (256 * 32)"
    by (simp add: CONVERT_TO_16_uint)
  also have "\<dots> = 256 * ((uint a * 256 + uint b) div 256 mod 32) + (uint a * 256 + uint b) mod 256"
    by (rule zmod_zmult2_eq) simp
  also have "\<dots> = (uint a mod 32) * 256 + uint b"
    using b by simp
  finally show ?thesis .
qed

text \<open>
  What \<^verbatim>\<open>pat_parse\<close> stores for program \<open>i\<close>: the program number and the PID are the
  big-endian values the spec describes; \<^verbatim>\<open>reserved\<close> holds bits 4 to 6 of the third byte,
  whatever the sign of \<^verbatim>\<open>char\<close>.
\<close>

lemma pat_parse_program_fields:
  "uint (program_number (pat_parse_program p i)) =
     uint (p (uint (8 + i * 4))) * 256 + uint (p (uint (8 + i * 4) + 1)) \<and>
   program_reserved (pat_parse_program p i) = ucast (drop_bit 4 (p (uint (8 + i * 4) + 2))) \<and>
   uint (program_pid (pat_parse_program p i)) =
     (uint (p (uint (8 + i * 4) + 2)) mod 32) * 256 + uint (p (uint (8 + i * 4) + 3))"
  by (simp add: pat_parse_program_def Let_def CONVERT_TO_16_uint program_reserved_bits
      program_pid_uint)

lemma pat_program_offset:
  assumes "unat i < 16382"
  shows "uint (8 + i * 4 :: u16) = 8 + 4 * uint i"
proof -
  have "int (unat i) < int 16382"
    using assms by (simp only: of_nat_less_iff)
  then have lt: "uint i < 16382"
    by simp
  have "uint (8 + i * 4 :: u16) = (8 + uint i * 4) mod 65536"
    by (simp add: uint_word_ariths mod_add_right_eq)
  also have "\<dots> = 8 + uint i * 4"
    using lt by simp
  finally show ?thesis
    by simp
qed

text \<open>
  C5: the code at the section \<open>section_v0\<close>, whose first program entry is
  \<^verbatim>\<open>00 01 E1 00\<close>.  The top three bits of the third byte 0xE1 are 7; \<^verbatim>\<open>pat_parse\<close> shifts
  the byte by 4, not by 5, and stores 6 in \<^verbatim>\<open>reserved\<close>.  The program number and the PID
  are as the claim says.
\<close>

theorem pat_program_reserved_shift:
  "payload_of section_v0 10 = 0xE1 \<and>
   (ucast (drop_bit 5 (payload_of section_v0 10)) :: 3 word) = 7 \<and>
   program_reserved (pat_parse_program (payload_of section_v0) 0) = 6 \<and>
   program_number (pat_parse_program (payload_of section_v0) 0) = 1 \<and>
   program_pid (pat_parse_program (payload_of section_v0) 0) = 0x100"
  by (simp add: pat_parse_program_def Let_def payload_of_def section_v0_def CONVERT_TO_16_def)

section \<open>The number of programs\<close>




section \<open>pat\_parse: the two outcomes\<close>

lemma pat_parse_discards:
  "pat_discards header p len priv \<Longrightarrow> pat_parse f header p len priv = (0, priv)"
  by (auto simp: pat_discards_def pat_parse_def hashtable_get_def Let_def split: option.splits)

lemma pat_built_fields:
  "version_number (pat_built p hdr priv) = version_number hdr"
  "table_id (pat_built p hdr priv) = table_id hdr"
  "section_length (pat_built p hdr priv) = section_length hdr"
  "dentry (pat_built p hdr priv) = calloc_addr priv"
  "num_programs (pat_built p hdr priv) = pat_num_programs (section_length hdr)"
  "programs (pat_built p hdr priv) =
     map (\<lambda>i. pat_parse_program p (word_of_nat i))
       [0 ..< unat (pat_num_programs (section_length hdr))]"
  by (simp_all add: pat_built_def pat_of_header_def)

lemma pat_create_directory_entries:
  "root_entries (pat_create_directory pat (Dentry [] 0 k [] []) priv) =
     root_entries priv @ [(dentry pat, pat_top_dentry pat k priv)]"
  "psi_parsers (pat_create_directory pat (Dentry [] 0 k [] []) priv) = snd (pat_populate pat priv)"
  "psi_tables (pat_create_directory pat (Dentry [] 0 k [] []) priv) = psi_tables priv"
  by (simp_all add: pat_create_directory_def pat_top_dentry_def CREATE_COMMON_def Let_def)

lemma pat_parse_accepts:
  assumes "psi_parse p len = Some hdr" and "\<not> pat_discards header p len priv"
  shows "fst (pat_parse f header p len priv) = 0"
    and "psi_tables (snd (pat_parse f header p len priv)) =
           (case psi_tables priv (unat (TS_PACKET_HASH_KEY header hdr)) of
              None \<Rightarrow> (psi_tables priv)
                        (unat (TS_PACKET_HASH_KEY header hdr) \<mapsto> pat_built p hdr priv)
            | Some c \<Rightarrow> ((psi_tables priv)(f := None))
                        (unat (TS_PACKET_HASH_KEY header hdr) \<mapsto> pat_built p hdr priv))"
    and "psi_parsers (snd (pat_parse f header p len priv)) =
           snd (pat_populate (pat_built p hdr priv) priv)"
    and "root_entries (snd (pat_parse f header p len priv)) =
           (case psi_tables priv (unat (TS_PACKET_HASH_KEY header hdr)) of
              None \<Rightarrow> root_entries priv @
                        [(calloc_addr priv,
                          pat_top_dentry (pat_built p hdr priv)
                            (unat (TS_PACKET_HASH_KEY header hdr)) priv)]
            | Some c \<Rightarrow>
                fsutils_dispose_tree (dentry c)
                  (migrate_entries (dentry c) (calloc_addr priv)
                     (root_entries priv @
                        [(calloc_addr priv,
                          pat_top_dentry (pat_built p hdr priv)
                            (unat (TS_PACKET_HASH_KEY header hdr)) priv)])))"
  using assms
  by (auto simp: pat_discards_def pat_parse_def hashtable_get_def hashtable_add_def
      hashtable_del_def Let_def pat_supersede_def pat_create_directory_entries
      pat_built_fields pat_built_def [symmetric] split: option.splits)

lemma pat_parse_table_installed:
  assumes "psi_parse p len = Some hdr" and "\<not> pat_discards header p len priv"
  shows "psi_tables (snd (pat_parse f header p len priv)) (unat (TS_PACKET_HASH_KEY header hdr)) =
           Some (pat_built p hdr priv)"
  by (simp add: pat_parse_accepts(2) [OF assms] split: option.splits)

text \<open>The sample sections pass \<^verbatim>\<open>psi_parse\<close>, CRC32 included.\<close>

lemma psi_parse_v0: "psi_parse (payload_of section_v0) 16 = Some header_v0"
  by (simp add: psi_parse_def Let_def CONVERT_TO_16_def TS_LAST_TABLE_ID_def section_v0_def
      payload_of_def payload_bytes_def upt_rec crc32_def crc32_byte_def crc32_shift_def
      header_v0_def)

lemma psi_parse_v1: "psi_parse (payload_of section_v1) 16 = Some header_v1"
  by (simp add: psi_parse_def Let_def CONVERT_TO_16_def TS_LAST_TABLE_ID_def section_v1_def
      payload_of_def payload_bytes_def upt_rec crc32_def crc32_byte_def crc32_shift_def
      header_v1_def)

lemma psi_parse_pid_1040: "psi_parse (payload_of section_pid_1040) 16 = Some header_v0"
  by (simp add: psi_parse_def Let_def CONVERT_TO_16_def TS_LAST_TABLE_ID_def
      section_pid_1040_def payload_of_def payload_bytes_def upt_rec crc32_def crc32_byte_def
      crc32_shift_def header_v0_def)

lemma key_pid0_v0: "unat (TS_PACKET_HASH_KEY ts_header_pid0 header_v0) = 0"
  by (simp add: TS_PACKET_HASH_KEY_def ts_header_pid0_def header_v0_def)

lemma key_pid0_v1: "unat (TS_PACKET_HASH_KEY ts_header_pid0 header_v1) = 0"
  by (simp add: TS_PACKET_HASH_KEY_def ts_header_pid0_def header_v1_def)

lemma header_v0_fields:
  "section_length header_v0 = 13" "version_number header_v0 = 0" "table_id header_v0 = 0"
  by (simp_all add: header_v0_def)

lemma header_v1_fields:
  "section_length header_v1 = 13" "version_number header_v1 = 1" "table_id header_v1 = 0"
  by (simp_all add: header_v1_def)

lemma accepts_v0_empty: "\<not> pat_discards ts_header_pid0 (payload_of section_v0) 16 priv_empty"
  by (simp add: pat_discards_def psi_parse_v0 key_pid0_v0) (simp add: header_v0_def priv_empty_def)



section \<open>The entries under the root\<close>

lemma foldr_max_ge: "a \<in> set xs \<Longrightarrow> a \<le> foldr max xs (0::nat)"
  by (induction xs) auto

lemma calloc_addr_fresh: "(a, d) \<in> set (root_entries priv) \<Longrightarrow> a < calloc_addr priv"
proof -
  assume "(a, d) \<in> set (root_entries priv)"
  then have "a \<in> set (map fst (root_entries priv))"
    by force
  then have "a \<le> foldr max (map fst (root_entries priv)) 0"
    by (rule foldr_max_ge)
  then show ?thesis
    by (simp add: calloc_addr_def)
qed

lemma entry_at_live: "entry_at (root_entries priv) a = Some d \<Longrightarrow> a < calloc_addr priv"
  by (auto simp: entry_at_def dest: map_of_SomeD calloc_addr_fresh)

lemma entry_at_calloc: "entry_at (root_entries priv) (calloc_addr priv) = None"
  using entry_at_live [of priv "calloc_addr priv"]
  by (cases "entry_at (root_entries priv) (calloc_addr priv)") auto

lemma entry_at_append:
  "entry_at (es @ [(a, d)]) b =
     (case entry_at es b of Some x \<Rightarrow> Some x | None \<Rightarrow> if a = b then Some d else None)"
  by (auto simp: entry_at_def map_add_def split: option.splits)

lemma entry_at_set_entry:
  "entry_at (set_entry es a d) b =
     (if a = b then map_option (\<lambda>_. d) (entry_at es a) else entry_at es b)"
  by (induction es) (auto simp: entry_at_def set_entry_def)

lemma entry_at_dispose:
  "entry_at (fsutils_dispose_tree a es) b = (if a = b then None else entry_at es b)"
  by (induction es) (auto simp: entry_at_def fsutils_dispose_tree_def)

lemma entry_at_migrate_new:
  assumes "entry_at es old_a = Some old_root" and "entry_at es new_a = Some new_root"
  shows "entry_at (migrate_entries old_a new_a es) new_a =
           Some (snd (fsutils_migrate_children old_root new_root))"
  using assms
  by (auto simp: migrate_entries_def entry_at_set_entry split: prod.splits)

lemma find_append_name:
  "find P (xs @ ys) = (case find P xs of Some x \<Rightarrow> Some x | None \<Rightarrow> find P ys)"
  by (induction xs) auto

lemma migrate_loop_find:
  "find (\<lambda>x. d_name x = n) (snd (migrate_loop cs kept new_cs)) =
     (case find (\<lambda>x. d_name x = n) new_cs of
        Some x \<Rightarrow> Some x
      | None \<Rightarrow> find (\<lambda>x. d_name x = n) cs)"
proof (induction cs arbitrary: kept new_cs)
  case Nil
  then show ?case by (simp split: option.splits)
next
  case (Cons c cs)
  show ?case
  proof (cases "find (\<lambda>x. d_name x = d_name c) new_cs = None")
    case True
    then show ?thesis
      using Cons.IH [of kept "new_cs @ [c]"]
      by (auto simp: find_append_name split: option.splits)
  next
    case False
    then show ?thesis
      using Cons.IH [of "kept @ [c]" new_cs]
      by (auto split: option.splits)
  qed
qed

lemma get_child_migrated:
  "fsutils_get_child (snd (fsutils_migrate_children old_root new_root)) n =
     (case fsutils_get_child new_root n of
        Some x \<Rightarrow> Some x
      | None \<Rightarrow> fsutils_get_child old_root n)"
  using migrate_loop_find [of n "d_children old_root" "[]" "d_children new_root"]
  by (auto simp: fsutils_migrate_children_def fsutils_get_child_def set_children_def
      split: prod.splits option.splits)

lemma migrated_fields:
  "d_inode (snd (fsutils_migrate_children old_root new_root)) = d_inode new_root"
  "d_name (snd (fsutils_migrate_children old_root new_root)) = d_name new_root"
  by (simp_all add: fsutils_migrate_children_def set_children_def split: prod.splits)

text \<open>
  The top dentry of the new table after \<^verbatim>\<open>pat_parse\<close> has accepted a section, when the
  top dentry of the table it supersedes is live.
\<close>

lemma pat_top_dentry_fields:
  "d_inode (pat_top_dentry pat k priv) = k"
  "d_name (pat_top_dentry pat k priv) = FS_PAT_NAME"
  by (simp_all add: pat_top_dentry_def fsutils_create_version_dir_def set_children_def)

lemma pat_parse_new_top:
  assumes "psi_parse p len = Some hdr" and "\<not> pat_discards header p len priv"
    and "current_pat_live header hdr priv"
  shows "entry_at (root_entries (snd (pat_parse f header p len priv))) (calloc_addr priv) =
           Some (case psi_tables priv (unat (TS_PACKET_HASH_KEY header hdr)) of
                   None \<Rightarrow> pat_top_dentry (pat_built p hdr priv)
                             (unat (TS_PACKET_HASH_KEY header hdr)) priv
                 | Some c \<Rightarrow>
                     snd (fsutils_migrate_children (the (entry_at (root_entries priv) (dentry c)))
                            (pat_top_dentry (pat_built p hdr priv)
                               (unat (TS_PACKET_HASH_KEY header hdr)) priv)))"
proof (cases "psi_tables priv (unat (TS_PACKET_HASH_KEY header hdr))")
  case None
  then show ?thesis
    by (simp add: pat_parse_accepts(4) [OF assms(1,2)] entry_at_append entry_at_calloc)
next
  case (Some c)
  then obtain old where old: "entry_at (root_entries priv) (dentry c) = Some old"
    using assms(3) by (auto simp: current_pat_live_def)
  then have ne: "dentry c \<noteq> calloc_addr priv"
    using entry_at_live [of priv "dentry c" old] by simp
  let ?top = "pat_top_dentry (pat_built p hdr priv) (unat (TS_PACKET_HASH_KEY header hdr)) priv"
  let ?es = "root_entries priv @ [(calloc_addr priv, ?top)]"
  have "entry_at ?es (dentry c) = Some old" and "entry_at ?es (calloc_addr priv) = Some ?top"
    using old by (simp_all add: entry_at_append entry_at_calloc)
  then have "entry_at (migrate_entries (dentry c) (calloc_addr priv) ?es) (calloc_addr priv) =
               Some (snd (fsutils_migrate_children old ?top))"
    by (rule entry_at_migrate_new)
  then show ?thesis
    using Some old ne by (simp add: pat_parse_accepts(4) [OF assms(1,2)] entry_at_dispose)
qed

section \<open>The table hash key\<close>

lemma mask16: "(0xffff :: u32) = mask 16"
  by (simp add: mask_eq_exp_minus_1)

lemma hash_key_cat: "TS_PACKET_HASH_KEY h t = word_cat (pid h) (table_id t)"
  unfolding TS_PACKET_HASH_KEY_def mask16
  by (rule bit_word_eqI) (auto simp: bit_simps dest: bit_imp_le_length)

lemma hash_key_or: "TS_PACKET_HASH_KEY h t = push_bit 8 (ucast (pid h)) OR ucast (table_id t)"
  unfolding TS_PACKET_HASH_KEY_def mask16
  by (rule bit_word_eqI) (auto simp: bit_simps dest: bit_imp_le_length)

lemma hash_key_uint:
  "uint (TS_PACKET_HASH_KEY h t) = uint (pid h) * 256 + uint (table_id t)"
proof -
  let ?x = "pid h" and ?y = "table_id t"
  have x: "0 \<le> uint ?x" "uint ?x < 8192" and y: "0 \<le> uint ?y" "uint ?y < 256"
    using uint_lt2p [of ?x] uint_lt2p [of ?y] by simp_all
  have "uint (word_cat ?x ?y :: u32) = (uint ?x * 256 mod 4294967296 + uint ?y) mod 4294967296"
    by (simp add: word_cat_eq uint_word_ariths uint_up_ucast is_up push_bit_eq_mult)
  also have "\<dots> = uint ?x * 256 + uint ?y"
    using x y by simp
  finally show ?thesis
    by (simp add: hash_key_cat)
qed

text \<open>
  C9: the key under which \<^verbatim>\<open>pat_parse\<close> stores the table object of a section it
  accepts is \<^verbatim>\<open>(pid << 8) | table_id\<close>, that is \<open>pid * 256 + table_id\<close>, with the 13-bit
  PID of the transport stream header and the table id of the section; the top dentry of
  the new table, linked under the root, has this key as its inode.
\<close>

theorem pat_parse_hash_key:
  assumes "psi_parse p len = Some hdr" and "\<not> pat_discards header p len priv"
    and "current_pat_live header hdr priv"
  shows "TS_PACKET_HASH_KEY header hdr = push_bit 8 (ucast (pid header)) OR ucast (table_id hdr) \<and>
         uint (TS_PACKET_HASH_KEY header hdr) = uint (pid header) * 256 + uint (table_id hdr) \<and>
         (\<exists>pat top.
            psi_tables (snd (pat_parse f header p len priv))
              (unat (TS_PACKET_HASH_KEY header hdr)) = Some pat \<and>
            table_id pat = table_id hdr \<and>
            entry_at (root_entries (snd (pat_parse f header p len priv))) (dentry pat) = Some top \<and>
            d_inode top = unat (TS_PACKET_HASH_KEY header hdr))"
proof (intro conjI exI)
  show "TS_PACKET_HASH_KEY header hdr = push_bit 8 (ucast (pid header)) OR ucast (table_id hdr)"
    by (rule hash_key_or)
  show "uint (TS_PACKET_HASH_KEY header hdr) = uint (pid header) * 256 + uint (table_id hdr)"
    by (rule hash_key_uint)
  show "psi_tables (snd (pat_parse f header p len priv)) (unat (TS_PACKET_HASH_KEY header hdr)) =
          Some (pat_built p hdr priv)"
    by (rule pat_parse_table_installed [OF assms(1,2)])
  show "table_id (pat_built p hdr priv) = table_id hdr"
    by (simp add: pat_built_fields)
  show "entry_at (root_entries (snd (pat_parse f header p len priv)))
          (dentry (pat_built p hdr priv)) =
        Some (case psi_tables priv (unat (TS_PACKET_HASH_KEY header hdr)) of
                   None \<Rightarrow> pat_top_dentry (pat_built p hdr priv)
                             (unat (TS_PACKET_HASH_KEY header hdr)) priv
                 | Some c \<Rightarrow>
                     snd (fsutils_migrate_children (the (entry_at (root_entries priv) (dentry c)))
                            (pat_top_dentry (pat_built p hdr priv)
                               (unat (TS_PACKET_HASH_KEY header hdr)) priv)))"
    using pat_parse_new_top [OF assms] by (simp add: pat_built_fields)
  show "d_inode (case psi_tables priv (unat (TS_PACKET_HASH_KEY header hdr)) of
                   None \<Rightarrow> pat_top_dentry (pat_built p hdr priv)
                             (unat (TS_PACKET_HASH_KEY header hdr)) priv
                 | Some c \<Rightarrow>
                     snd (fsutils_migrate_children (the (entry_at (root_entries priv) (dentry c)))
                            (pat_top_dentry (pat_built p hdr priv)
                               (unat (TS_PACKET_HASH_KEY header hdr)) priv))) =
        unat (TS_PACKET_HASH_KEY header hdr)"
    by (simp add: migrated_fields pat_top_dentry_fields split: option.splits)
qed

lemma live_v0_empty: "current_pat_live ts_header_pid0 header_v0 priv_empty"
  by (simp add: current_pat_live_def key_pid0_v0) (simp add: priv_empty_def)

theorem pat_parse_hash_key_witness:
  "psi_parse (payload_of section_v0) 16 = Some header_v0 \<and>
   \<not> pat_discards ts_header_pid0 (payload_of section_v0) 16 priv_empty \<and>
   current_pat_live ts_header_pid0 header_v0 priv_empty \<and>
   (\<exists>pat top.
      psi_tables (snd (pat_parse 0 ts_header_pid0 (payload_of section_v0) 16 priv_empty)) 0 =
        Some pat \<and>
      entry_at (root_entries (snd (pat_parse 0 ts_header_pid0 (payload_of section_v0) 16 priv_empty)))
        (dentry pat) = Some top \<and>
      d_inode top = 0)"
  using pat_parse_hash_key [OF psi_parse_v0 accepts_v0_empty live_v0_empty, of 0,
      unfolded key_pid0_v0]
  by (auto simp add: psi_parse_v0 accepts_v0_empty live_v0_empty)

section \<open>Discarded sections\<close>

text \<open>
  C2: when \<^verbatim>\<open>psi_parse\<close> fails, or the current/next indicator is 0, or \<^verbatim>\<open>psi_tables\<close>
  holds an entry of the same version under the key of the section, \<^verbatim>\<open>pat_parse\<close> returns
  0 and leaves the private data (the hash tables and the dentry tree) as they were; and
  feeding a section a second time changes nothing, whatever the first feed did.
\<close>

theorem pat_parse_discard_no_change:
  "(pat_discards header p len priv \<longrightarrow> pat_parse f header p len priv = (0, priv)) \<and>
   pat_parse f' header p len (snd (pat_parse f header p len priv)) =
     pat_parse f header p len priv"
proof (intro conjI impI)
  show "pat_parse f header p len priv = (0, priv)" if "pat_discards header p len priv"
    using that by (rule pat_parse_discards)
  show "pat_parse f' header p len (snd (pat_parse f header p len priv)) =
          pat_parse f header p len priv"
  proof (cases "pat_discards header p len priv")
    case True
    then show ?thesis
      by (simp add: pat_parse_discards)
  next
    case False
    then obtain hdr where hdr: "psi_parse p len = Some hdr"
      by (auto simp: pat_discards_def split: option.splits)
    let ?s = "snd (pat_parse f header p len priv)"
    have "psi_tables ?s (unat (TS_PACKET_HASH_KEY header hdr)) = Some (pat_built p hdr priv)"
      by (rule pat_parse_table_installed [OF hdr False])
    then have "pat_discards header p len ?s"
      by (simp add: pat_discards_def hdr pat_built_fields)
    then have "pat_parse f' header p len ?s = (0, ?s)"
      by (rule pat_parse_discards)
    moreover have "fst (pat_parse f header p len priv) = 0"
      by (rule pat_parse_accepts(1) [OF hdr False])
    ultimately show ?thesis
      by (simp add: prod_eq_iff)
  qed
qed

section \<open>The sample inputs evaluated\<close>

lemma replicate_small: "replicate 2 x = [x, x]" "replicate 3 x = [x, x, x]"
  by (simp_all add: numeral_2_eq_2 numeral_3_eq_3)

lemma pat_built_header:
  "section_syntax_indicator (pat_built p hdr priv) = section_syntax_indicator hdr"
  "transport_stream_id (pat_built p hdr priv) = transport_stream_id hdr"
  "current_next_indicator (pat_built p hdr priv) = current_next_indicator hdr"
  "section_number (pat_built p hdr priv) = section_number hdr"
  "last_section_number (pat_built p hdr priv) = last_section_number hdr"
  by (simp_all add: pat_built_def pat_of_header_def)

lemma header_v0_rest:
  "section_syntax_indicator header_v0 = 1" "transport_stream_id header_v0 = 1"
  "current_next_indicator header_v0 = 1" "section_number header_v0 = 0"
  "last_section_number header_v0 = 0"
  by (simp_all add: header_v0_def)

lemma priv_empty_fields:
  "root_entries priv_empty = []" "psi_tables priv_empty = Map.empty"
  "psi_parsers priv_empty = Map.empty"
  by (simp_all add: priv_empty_def)

lemma fmt_02d_values:
  "fmt_02d 0 = ''00''" "fmt_02d 1 = ''01''" "fmt_02d 2 = ''02''" "fmt_02d (Suc 0) = ''01''"
  by (simp_all add: fmt_02d_def dec_digits.simps hex_digit_def)

lemma dec_digits_values:
  "dec_digits 0 = ''0''" "dec_digits 1 = ''1''" "dec_digits 13 = ''13''"
  by (simp_all add: dec_digits.simps hex_digit_def)

lemma fmt_hash_04x_values:
  "fmt_hash_04x 0 = ''0000''" "fmt_hash_04x 1 = ''0x01''" "fmt_hash_04x 2 = ''0x02''"
  "fmt_hash_04x (Suc 0) = ''0x01''"
  "fmt_hash_04x 256 = ''0x100''" "fmt_hash_04x 257 = ''0x101''" "fmt_hash_04x 4160 = ''0x1040''"
  by (simp_all add: fmt_hash_04x_def hex_digits.simps hex_digit_def)

lemma fmt_0x04x_values: "fmt_0x04x 1 = ''0x0001''" "fmt_0x04x 256 = ''0x0100''"
  by (simp_all add: fmt_0x04x_def hex_digits.simps hex_digit_def replicate_small)

lemma pat_num_programs_13: "pat_num_programs 13 = 1"
  by (simp add: pat_num_programs_def signed_divide_int_def)

lemma programs_v0:
  "programs (pat_built (payload_of section_v0) header_v0 priv) =
     [\<lparr> program_number = 1, program_reserved = 6, program_pid = 0x100 \<rparr>]"
  by (simp add: pat_built_fields header_v0_fields pat_num_programs_13 pat_parse_program_def
      Let_def payload_of_def section_v0_def CONVERT_TO_16_def)

lemma top_dentry_v0:
  "pat_top_dentry (pat_built (payload_of section_v0) header_v0 priv) 0 priv = pat_tree_v0"
  by (simp add: pat_top_dentry_def pat_populate_def programs_v0 psi_populate_def
      pat_built_fields(1-5) pat_built_header header_v0_fields header_v0_rest
      fsutils_create_version_dir_def set_children_def pat_tree_v0_def
      fmt_02d_values pat_program_symlink_def fmt_hash_04x_values FS_PAT_NAME_def
      FS_PROGRAMS_NAME_def FS_CURRENT_NAME_def FS_PMT_NAME_def)

lemma root_entries_v0:
  "root_entries (snd (pat_parse f ts_header_pid0 (payload_of section_v0) 16 priv_empty)) =
     [(1, pat_tree_v0)]"
  by (simp add: pat_parse_accepts(4) [OF psi_parse_v0 accepts_v0_empty] key_pid0_v0
      top_dentry_v0 priv_empty_fields calloc_addr_def)

section \<open>Feeding a section twice\<close>

lemma mode_tests:
  "S_ISDIR (S_IFDIR OR perm_0555)" "\<not> S_ISDIR (S_IFLNK OR perm_0777)"
  "\<not> S_ISDIR (S_IFREG OR perm_0444)" "S_ISLNK (S_IFLNK OR perm_0777)"
  "\<not> S_ISLNK (S_IFDIR OR perm_0555)" "\<not> S_ISLNK (S_IFREG OR perm_0444)"
  by (simp_all add: S_ISDIR_def S_ISLNK_def S_IFMT_def S_IFDIR_def S_IFLNK_def S_IFREG_def
      perm_0555_def perm_0777_def perm_0444_def)

lemma created_fields:
  "d_name (CREATE_DIRECTORY n cs) = n" "d_mode (CREATE_DIRECTORY n cs) = S_IFDIR OR perm_0555"
  "d_children (CREATE_DIRECTORY n cs) = cs"
  "d_name (CREATE_SYMLINK n t) = n" "d_mode (CREATE_SYMLINK n t) = S_IFLNK OR perm_0777"
  "d_contents (CREATE_SYMLINK n t) = t" "d_children (CREATE_SYMLINK n t) = []"
  "d_name (CREATE_FILE_NUMBER n v) = n" "d_mode (CREATE_FILE_NUMBER n v) = S_IFREG OR perm_0444"
  "d_contents (CREATE_FILE_NUMBER n v) = dec_digits v" "d_children (CREATE_FILE_NUMBER n v) = []"
  "d_name (CREATE_FILE_BIN n bs k) = n" "d_mode (CREATE_FILE_BIN n bs k) = S_IFREG OR perm_0444"
  "d_children (CREATE_FILE_BIN n bs k) = []"
  by (simp_all add: CREATE_DIRECTORY_def CREATE_SYMLINK_def CREATE_FILE_NUMBER_def
      CREATE_FILE_BIN_def)

lemma subdirs_tree_v0: "subdirectory_names pat_tree_v0 = [''V00'']"
  by (simp add: subdirectory_names_def pat_tree_v0_def created_fields mode_tests)

theorem pat_parse_discard_no_change_witness:
  "pat_discards ts_header_pid0 (payload_of section_v0) 16
     (snd (pat_parse 0 ts_header_pid0 (payload_of section_v0) 16 priv_empty)) \<and>
   pat_parse 1 ts_header_pid0 (payload_of section_v0) 16
     (snd (pat_parse 0 ts_header_pid0 (payload_of section_v0) 16 priv_empty)) =
   (0, snd (pat_parse 0 ts_header_pid0 (payload_of section_v0) 16 priv_empty)) \<and>
   map (\<lambda>e. (d_name (snd e), subdirectory_names (snd e)))
     (root_entries
        (snd (pat_parse 1 ts_header_pid0 (payload_of section_v0) 16
                (snd (pat_parse 0 ts_header_pid0 (payload_of section_v0) 16 priv_empty))))) =
   [(''PAT'', [''V00''])]"
proof -
  let ?s = "snd (pat_parse 0 ts_header_pid0 (payload_of section_v0) 16 priv_empty)"
  have d: "pat_discards ts_header_pid0 (payload_of section_v0) 16 ?s"
    using pat_parse_table_installed [OF psi_parse_v0 accepts_v0_empty, of 0]
    by (simp add: pat_discards_def psi_parse_v0 pat_built_fields)
  have n: "d_name pat_tree_v0 = ''PAT''"
    by (simp add: pat_tree_v0_def)
  from d show ?thesis
    using pat_parse_discard_no_change
      [of ts_header_pid0 "payload_of section_v0" 16 ?s 1 1]
    by (simp add: root_entries_v0 subdirs_tree_v0 n)
qed


section \<open>pat\_announces\_service: the result\<close>

lemma find_name_iff: "find P xs \<noteq> None \<longleftrightarrow> (\<exists>x \<in> set xs. P x)"
  by (auto simp: find_None_iff)

text \<open>
  C10: \<^verbatim>\<open>pat_announces_service\<close> returns true exactly when the path
  \<^verbatim>\<open>/PAT/Current/Programs\<close> resolves from the root and the dentry found has a child
  named as \<^verbatim>\<open>%#04x\<close> renders the service id; when the path does not resolve it logs
  one warning and returns false; in all cases it leaves the private data, the dentry
  tree and the hash tables, as they were.
\<close>

theorem pat_announces_service_iff:
  "fst (pat_announces_service service_id priv) =
     (\<exists>progs. fsutils_get_dentry (root priv) ''/PAT/Current/Programs'' = Some progs \<and>
        (\<exists>c \<in> set (d_children progs). d_name c = fmt_hash_04x (unat service_id))) \<and>
   (fsutils_get_dentry (root priv) ''/PAT/Current/Programs'' = None \<longrightarrow>
      pat_announces_service service_id priv =
        (False, [''/PAT/Current/Programs doesn't exit''], priv)) \<and>
   snd (snd (pat_announces_service service_id priv)) = priv"
proof -
  note buf = FS_PAT_NAME_def FS_CURRENT_NAME_def FS_PROGRAMS_NAME_def Let_def
  show ?thesis
  proof (cases "fsutils_get_dentry (root priv) ''/PAT/Current/Programs''")
    case None
    then show ?thesis
      by (simp add: pat_announces_service_def buf)
  next
    case (Some progs)
    have "(fsutils_get_child progs (fmt_hash_04x (unat service_id)) \<noteq> None) =
            (\<exists>c \<in> set (d_children progs). d_name c = fmt_hash_04x (unat service_id))"
      unfolding fsutils_get_child_def by (rule find_name_iff)
    then show ?thesis
      using Some by (auto simp: pat_announces_service_def buf split: option.splits)
  qed
qed

lemma split_path_programs:
  "split_path ''/PAT/Current/Programs'' = [''PAT'', ''Current'', ''Programs'']"
  by (simp add: split_path_def)

lemma get_dentry_empty:
  "fsutils_get_dentry (root priv_empty) ''/PAT/Current/Programs'' = None"
  by (simp add: fsutils_get_dentry_def split_path_programs root_def priv_empty_fields
      fsutils_get_child_def)

lemma root_v0:
  "root (snd (pat_parse f ts_header_pid0 (payload_of section_v0) 16 priv_empty)) =
     Dentry ''/'' (S_IFDIR OR perm_0555) 0 [] [pat_tree_v0]"
  by (simp add: root_def root_entries_v0)

lemma get_dentry_v0:
  "fsutils_get_dentry (Dentry ''/'' (S_IFDIR OR perm_0555) 0 [] [pat_tree_v0])
     ''/PAT/Current/Programs'' =
   Some (CREATE_DIRECTORY ''Programs''
           [CREATE_SYMLINK ''0x01'' ''../../../PMT/0x100/Current''])"
  by (simp add: fsutils_get_dentry_def split_path_programs symlink_budget_def
      fsutils_get_child_def pat_tree_v0_def created_fields mode_tests split_path_def)

theorem pat_announces_service_iff_witness:
  "fsutils_get_dentry (root priv_empty) ''/PAT/Current/Programs'' = None \<and>
   pat_announces_service 1 priv_empty =
     (False, [''/PAT/Current/Programs doesn't exit''], priv_empty) \<and>
   fst (pat_announces_service 1
          (snd (pat_parse 0 ts_header_pid0 (payload_of section_v0) 16 priv_empty))) \<and>
   \<not> fst (pat_announces_service 2
            (snd (pat_parse 0 ts_header_pid0 (payload_of section_v0) 16 priv_empty)))"
  using pat_announces_service_iff [of 1 priv_empty]
    pat_announces_service_iff
      [of 1 "snd (pat_parse 0 ts_header_pid0 (payload_of section_v0) 16 priv_empty)"]
    pat_announces_service_iff
      [of 2 "snd (pat_parse 0 ts_header_pid0 (payload_of section_v0) 16 priv_empty)"]
  by (simp add: get_dentry_empty root_v0 get_dentry_v0 created_fields fmt_hash_04x_values)


section \<open>Compatibility descriptor dentries\<close>

text \<open>
  C8: the code at the compatibility descriptor \<open>cd_two\<close>, whose two descriptors have
  one and no sub-descriptor.  The directory \<^verbatim>\<open>descriptor_02\<close> gets the sub-directory
  \<^verbatim>\<open>sub_descriptor_01\<close> and the descriptor type 1 of the first descriptor: the loop body
  reads \<^verbatim>\<open>cd->descriptors\<close>, the first element, in every round.  With the element of the
  round (\<open>descriptor_dentry_spec\<close>) the directory has no sub-directory and shows the
  type 2.
\<close>

theorem compatibility_descriptor_first_repeated:
  "map (\<lambda>d. (d_name d, subdirectory_names d))
     (filter (\<lambda>c. S_ISDIR (d_mode c))
        (d_children (dsmcc_create_compatibility_descriptor_dentries cd_two
                       (CREATE_DIRECTORY ''compatibility_descriptor'' [])))) =
     [(''descriptor_01'', [''sub_descriptor_01'']), (''descriptor_02'', [''sub_descriptor_01''])] \<and>
   map_option d_contents (fsutils_get_child (descriptor_dentry cd_two 1) ''descriptor_type'') =
     Some ''1'' \<and>
   subdirectory_names (descriptor_dentry_spec cd_two 1) = [] \<and>
   map_option d_contents (fsutils_get_child (descriptor_dentry_spec cd_two 1) ''descriptor_type'') =
     Some ''2''"
  by (simp add: dsmcc_create_compatibility_descriptor_dentries_def descriptor_dentry_def
      descriptor_dentry_spec_def sub_descriptor_dentry_def cd_two_def Let_def upt_rec
      subdirectory_names_def created_fields mode_tests fmt_02d_values fsutils_get_child_def
      dec_digits_values fmt_02d_def dec_digits.simps hex_digit_def)

section \<open>The symlinks of the programs\<close>

lemma split_path_v00: "split_path ''/PAT/V00/Programs'' = [''PAT'', ''V00'', ''Programs'']"
  by (simp add: split_path_def)

lemma get_dentry_v00:
  "fsutils_get_dentry (Dentry ''/'' (S_IFDIR OR perm_0555) 0 [] [pat_tree_v0])
     ''/PAT/V00/Programs'' =
   Some (CREATE_DIRECTORY ''Programs''
           [CREATE_SYMLINK ''0x01'' ''../../../PMT/0x100/Current''])"
  by (simp add: fsutils_get_dentry_def split_path_v00 symlink_budget_def
      fsutils_get_child_def pat_tree_v0_def created_fields mode_tests)

text \<open>
  C4, as the spec states it, fails: for the PAT with program 1 on PID 0x100 the
  directory \<^verbatim>\<open>/PAT/V00/Programs\<close> holds the one symlink \<^verbatim>\<open>0x01\<close> with the target
  \<^verbatim>\<open>../../../PMT/0x100/Current\<close>, and no child \<^verbatim>\<open>0x0001\<close>.
\<close>

theorem pat_symlink_names_counterexample:
  "programs (pat_built (payload_of section_v0) header_v0 priv_empty) =
     [\<lparr> program_number = 1, program_reserved = 6, program_pid = 0x100 \<rparr>] \<and>
   map_option (\<lambda>d. map (\<lambda>c. (d_name c, d_contents c)) (d_children d))
     (fsutils_get_dentry
        (root (snd (pat_parse 0 ts_header_pid0 (payload_of section_v0) 16 priv_empty)))
        ''/PAT/V00/Programs'') =
     Some [(''0x01'', ''../../../PMT/0x100/Current'')] \<and>
   map_option (\<lambda>d. fsutils_get_child d ''0x0001'')
     (fsutils_get_dentry
        (root (snd (pat_parse 0 ts_header_pid0 (payload_of section_v0) 16 priv_empty)))
        ''/PAT/V00/Programs'') =
     Some None"
  by (simp add: programs_v0 root_v0 get_dentry_v00 created_fields fsutils_get_child_def)

lemma hex_digits_length:
  "0 < length (hex_digits v)" "v < 16 \<Longrightarrow> length (hex_digits v) = 1"
  "16 \<le> v \<Longrightarrow> 2 \<le> length (hex_digits v)"
proof -
  show pos: "0 < length (hex_digits v)" for v
    by (subst hex_digits.simps) simp
  show "v < 16 \<Longrightarrow> length (hex_digits v) = 1"
    by (subst hex_digits.simps) simp
  show "16 \<le> v \<Longrightarrow> 2 \<le> length (hex_digits v)"
    using pos [of "v div 16"]
    by (subst hex_digits.simps) (cases "hex_digits (v div 16)"; simp)
qed

lemma fmt_hash_04x_shape:
  "fmt_hash_04x 0 = ''0000''"
  "0 < v \<Longrightarrow> v < 16 \<Longrightarrow> fmt_hash_04x v = ''0x0'' @ hex_digits v"
  "16 \<le> v \<Longrightarrow> fmt_hash_04x v = ''0x'' @ hex_digits v"
  using hex_digits_length(2,3) [of v]
  by (auto simp: fmt_hash_04x_def)

lemma pat_program_symlink_fields:
  "d_name (pat_program_symlink prog) = fmt_hash_04x (unat (program_number prog))"
  "S_ISLNK (d_mode (pat_program_symlink prog))"
  "d_contents (pat_program_symlink prog) =
     (if program_number prog = 0 then ''../../../NIT/Current''
      else ''../../../PMT/'' @ fmt_hash_04x (unat (program_pid prog)) @ ''/Current'')"
  by (simp_all add: pat_program_symlink_def Let_def created_fields mode_tests FS_NIT_NAME_def
      FS_PMT_NAME_def FS_CURRENT_NAME_def)

lemma pat_top_dentry_children:
  "fsutils_get_child (pat_top_dentry pat k priv) (''V'' @ fmt_02d (unat (version_number pat))) =
     Some (CREATE_DIRECTORY (''V'' @ fmt_02d (unat (version_number pat)))
             (psi_populate pat @
              [CREATE_DIRECTORY ''Programs'' (map pat_program_symlink (programs pat))]))"
  by (simp add: pat_top_dentry_def fsutils_create_version_dir_def set_children_def
      fsutils_get_child_def created_fields pat_populate_def FS_PROGRAMS_NAME_def)

lemma version_dir_programs:
  "fsutils_get_child (CREATE_DIRECTORY v (psi_populate pat @ [CREATE_DIRECTORY ''Programs'' cs]))
     ''Programs'' = Some (CREATE_DIRECTORY ''Programs'' cs)"
  by (simp add: fsutils_get_child_def created_fields psi_populate_def)

text \<open>
  C4, amended: for every program entry of an accepted PAT, the directory \<^verbatim>\<open>Programs\<close>
  of the version directory holds a symlink whose name is the program number as
  \<^verbatim>\<open>%#04x\<close> renders it (\<^verbatim>\<open>0x\<close> and the hexadecimal digits, two at least, for a nonzero
  value; \<^verbatim>\<open>0000\<close> for zero) and whose target is \<^verbatim>\<open>../../../PMT/<pid>/Current\<close> with the
  PID rendered the same way when the program number is not zero, and
  \<^verbatim>\<open>../../../NIT/Current\<close> when it is zero.
\<close>

theorem pat_populate_symlinks:
  assumes "psi_parse p len = Some hdr" and "\<not> pat_discards header p len priv"
    and "current_pat_live header hdr priv"
  shows "\<exists>top vdir.
           entry_at (root_entries (snd (pat_parse f header p len priv)))
             (dentry (pat_built p hdr priv)) = Some top \<and>
           d_name top = ''PAT'' \<and>
           fsutils_get_child top (''V'' @ fmt_02d (unat (version_number hdr))) = Some vdir \<and>
           fsutils_get_child vdir ''Programs'' =
             Some (CREATE_DIRECTORY ''Programs''
                     (map pat_program_symlink (programs (pat_built p hdr priv)))) \<and>
           (\<forall>prog \<in> set (programs (pat_built p hdr priv)).
              d_name (pat_program_symlink prog) = fmt_hash_04x (unat (program_number prog)) \<and>
              S_ISLNK (d_mode (pat_program_symlink prog)) \<and>
              d_contents (pat_program_symlink prog) =
                (if program_number prog = 0 then ''../../../NIT/Current''
                 else ''../../../PMT/'' @ fmt_hash_04x (unat (program_pid prog)) @ ''/Current''))"
proof -
  let ?pat = "pat_built p hdr priv"
  let ?k = "unat (TS_PACKET_HASH_KEY header hdr)"
  let ?fresh = "pat_top_dentry ?pat ?k priv"
  let ?top = "case psi_tables priv ?k of
                None \<Rightarrow> ?fresh
              | Some c \<Rightarrow>
                  snd (fsutils_migrate_children (the (entry_at (root_entries priv) (dentry c)))
                         ?fresh)"
  let ?v = "''V'' @ fmt_02d (unat (version_number hdr))"
  let ?vdir = "CREATE_DIRECTORY ?v
                 (psi_populate ?pat @
                  [CREATE_DIRECTORY ''Programs'' (map pat_program_symlink (programs ?pat))])"
  have top: "entry_at (root_entries (snd (pat_parse f header p len priv))) (dentry ?pat) = Some ?top"
    using pat_parse_new_top [OF assms] by (simp add: pat_built_fields(4))
  have nm: "d_name ?top = ''PAT''"
    by (simp add: migrated_fields pat_top_dentry_fields FS_PAT_NAME_def split: option.splits)
  have v0: "fsutils_get_child ?fresh ?v = Some ?vdir"
    using pat_top_dentry_children [of ?pat ?k priv] by (simp add: pat_built_fields(1))
  have v: "fsutils_get_child ?top ?v = Some ?vdir"
    using v0 by (cases "psi_tables priv ?k") (simp_all add: get_child_migrated)
  have pr: "fsutils_get_child ?vdir ''Programs'' =
              Some (CREATE_DIRECTORY ''Programs'' (map pat_program_symlink (programs ?pat)))"
    by (rule version_dir_programs)
  show ?thesis
    using top nm v pr by (intro exI conjI ballI) (simp_all add: pat_program_symlink_fields)
qed

lemma calloc_addr_empty: "calloc_addr priv_empty = 1"
  by (simp add: calloc_addr_def priv_empty_fields)

theorem pat_populate_symlinks_witness:
  "psi_parse (payload_of section_v0) 16 = Some header_v0 \<and>
   \<not> pat_discards ts_header_pid0 (payload_of section_v0) 16 priv_empty \<and>
   current_pat_live ts_header_pid0 header_v0 priv_empty \<and>
   programs (pat_built (payload_of section_v0) header_v0 priv_empty) =
     [\<lparr> program_number = 1, program_reserved = 6, program_pid = 0x100 \<rparr>] \<and>
   (\<exists>top vdir.
      entry_at (root_entries (snd (pat_parse 0 ts_header_pid0 (payload_of section_v0) 16 priv_empty)))
        1 = Some top \<and>
      fsutils_get_child top ''V00'' = Some vdir \<and>
      fsutils_get_child vdir ''Programs'' =
        Some (CREATE_DIRECTORY ''Programs''
                [CREATE_SYMLINK ''0x01'' ''../../../PMT/0x100/Current'']))"
  using pat_populate_symlinks [OF psi_parse_v0 accepts_v0_empty live_v0_empty, of 0]
  by (auto simp add: psi_parse_v0 accepts_v0_empty live_v0_empty programs_v0
      pat_built_fields(4) calloc_addr_empty header_v0_fields fmt_02d_values
      pat_program_symlink_def fmt_hash_04x_values FS_PMT_NAME_def FS_CURRENT_NAME_def)

section \<open>The parsers registered by pat\_populate\<close>

lemma register_fold:
  assumes "tables q = None"
    and "\<forall>r \<in> set progs. unat (program_pid r) = q \<longrightarrow> (program_number r = 0) = z"
  shows "foldl (\<lambda>parsers prog. pat_program_register tables prog parsers) parsers progs q =
           (if \<exists>r \<in> set progs. unat (program_pid r) = q
            then Some (if z then nit_parse else pmt_parse) else parsers q)"
  using assms(2)
proof (induction progs arbitrary: parsers)
  case Nil
  then show ?case by simp
next
  case (Cons r rs)
  have step: "pat_program_register tables r parsers q =
                (if unat (program_pid r) = q then Some (if z then nit_parse else pmt_parse)
                 else parsers q)"
    using assms(1) Cons.prems
    by (auto simp: pat_program_register_def hashtable_get_def hashtable_add_def Let_def)
  show ?case
    using Cons.IH [of "pat_program_register tables r parsers"] Cons.prems
    by (auto simp: step)
qed

lemma register_fold_known:
  assumes "tables q \<noteq> None"
  shows "foldl (\<lambda>parsers prog. pat_program_register tables prog parsers) parsers progs q =
           parsers q"
proof (induction progs arbitrary: parsers)
  case Nil
  then show ?case by simp
next
  case (Cons r rs)
  have "pat_program_register tables r parsers q = parsers q"
    using assms
    by (auto simp: pat_program_register_def hashtable_get_def hashtable_add_def Let_def)
  then show ?case
    using Cons.IH [of "pat_program_register tables r parsers"] by simp
qed

lemma pat_populate_registers:
  assumes "psi_tables priv q = None"
    and "prog \<in> set (programs pat)" and "unat (program_pid prog) = q"
    and "\<forall>r \<in> set (programs pat). unat (program_pid r) = q \<longrightarrow>
           (program_number r = 0) = (program_number prog = 0)"
  shows "snd (pat_populate pat priv) q =
           Some (if program_number prog = 0 then nit_parse else pmt_parse)"
  using register_fold [of "psi_tables priv" q "programs pat" "program_number prog = 0"
      "psi_parsers priv", OF assms(1,4)] assms(2,3)
  by (auto simp: pat_populate_def)

lemma pat_populate_known_key:
  "psi_tables priv q \<noteq> None \<Longrightarrow> snd (pat_populate pat priv) q = psi_parsers priv q"
  by (simp add: pat_populate_def register_fold_known)

lemma priv_with_nit_fields:
  "psi_tables priv_with_nit 0 = None" "psi_tables priv_with_nit 4160 = Some nit_table"
  "psi_parsers priv_with_nit 4160 = None"
  by (simp_all add: priv_with_nit_def)

lemma accepts_pid_1040_nit:
  "\<not> pat_discards ts_header_pid0 (payload_of section_pid_1040) 16 priv_with_nit"
  by (simp add: pat_discards_def psi_parse_pid_1040 key_pid0_v0 priv_with_nit_fields
      header_v0_rest)

lemma programs_pid_1040:
  "programs (pat_built (payload_of section_pid_1040) header_v0 priv) =
     [\<lparr> program_number = 1, program_reserved = 7, program_pid = 0x1040 \<rparr>]"
  by (simp add: pat_built_fields header_v0_fields pat_num_programs_13 pat_parse_program_def
      Let_def payload_of_def section_pid_1040_def CONVERT_TO_16_def)

text \<open>
  C3: the code at the private data \<open>priv_with_nit\<close>, where the NIT has been parsed (its
  table object is under the key 0x1040 in \<^verbatim>\<open>psi_tables\<close>) and no parser is bound to
  PID 0x1040, and a PAT that announces program 1 on PID 0x1040.  \<^verbatim>\<open>pat_parse\<close> accepts the
  section and binds no parser to PID 0x1040: \<^verbatim>\<open>pat_populate\<close> looks the PID up in
  \<^verbatim>\<open>psi_tables\<close>, whose keys are \<^verbatim>\<open>(pid << 8) | table_id\<close>, and finds the NIT.
\<close>

theorem pat_populate_skips_registration:
  "psi_parse (payload_of section_pid_1040) 16 = Some header_v0 \<and>
   \<not> pat_discards ts_header_pid0 (payload_of section_pid_1040) 16 priv_with_nit \<and>
   map_option programs
     (psi_tables (snd (pat_parse 0 ts_header_pid0 (payload_of section_pid_1040) 16 priv_with_nit))
        0) =
     Some [\<lparr> program_number = 1, program_reserved = 7, program_pid = 0x1040 \<rparr>] \<and>
   psi_tables priv_with_nit 0x1040 = Some nit_table \<and>
   psi_parsers priv_with_nit 0x1040 = None \<and>
   psi_parsers (snd (pat_parse 0 ts_header_pid0 (payload_of section_pid_1040) 16 priv_with_nit))
     0x1040 = None"
  using pat_parse_table_installed [OF psi_parse_pid_1040 accepts_pid_1040_nit, of 0]
  by (simp add: psi_parse_pid_1040 accepts_pid_1040_nit key_pid0_v0 programs_pid_1040
      priv_with_nit_fields pat_parse_accepts(3) [OF psi_parse_pid_1040 accepts_pid_1040_nit]
      pat_populate_known_key)

section \<open>Supersession\<close>

lemma get_child_top_other:
  "n \<noteq> ''V'' @ fmt_02d (unat (version_number pat)) \<Longrightarrow> n \<noteq> ''Current'' \<Longrightarrow>
   fsutils_get_child (pat_top_dentry pat k priv) n = None"
  by (simp add: pat_top_dentry_def fsutils_create_version_dir_def set_children_def
      fsutils_get_child_def created_fields FS_CURRENT_NAME_def)

text \<open>
  What the supersession branch does, whatever value \<^verbatim>\<open>hashtable_del\<close> is given: the
  children of the old top dentry (the directory \<^verbatim>\<open>PAT\<close>) migrate into the new top
  dentry, the old top dentry goes, the entry under \<open>freed_inode\<close> is removed from
  \<^verbatim>\<open>psi_tables\<close> and the new object is installed under the key of the section.
\<close>

lemma pat_supersession_state:
  assumes "psi_parse p len = Some hdr" and "\<not> pat_discards header p len priv"
    and "psi_tables priv (unat (TS_PACKET_HASH_KEY header hdr)) = Some cur"
    and "entry_at (root_entries priv) (dentry cur) = Some old_top"
  shows "root_entries (snd (pat_parse f header p len priv)) =
           fsutils_dispose_tree (dentry cur)
             (migrate_entries (dentry cur) (dentry (pat_built p hdr priv))
                (root_entries
                   (pat_create_directory (pat_built p hdr priv)
                      (Dentry [] 0 (unat (TS_PACKET_HASH_KEY header hdr)) [] []) priv))) \<and>
         psi_tables (snd (pat_parse f header p len priv)) =
           hashtable_add (hashtable_del (psi_tables priv) f)
             (unat (TS_PACKET_HASH_KEY header hdr)) (pat_built p hdr priv) \<and>
         psi_tables (snd (pat_parse f header p len priv)) (unat (TS_PACKET_HASH_KEY header hdr)) =
           Some (pat_built p hdr priv) \<and>
         version_number (pat_built p hdr priv) = version_number hdr \<and>
         version_number hdr \<noteq> version_number cur \<and>
         entry_at (root_entries (snd (pat_parse f header p len priv))) (dentry cur) = None \<and>
         (\<exists>new_top.
            entry_at (root_entries (snd (pat_parse f header p len priv)))
              (dentry (pat_built p hdr priv)) = Some new_top \<and>
            (\<forall>n. fsutils_get_child new_top n =
                   (case fsutils_get_child
                           (pat_top_dentry (pat_built p hdr priv)
                              (unat (TS_PACKET_HASH_KEY header hdr)) priv) n of
                      Some x \<Rightarrow> Some x
                    | None \<Rightarrow> fsutils_get_child old_top n)) \<and>
            (\<forall>n. n \<noteq> ''V'' @ fmt_02d (unat (version_number hdr)) \<and> n \<noteq> ''Current'' \<longrightarrow>
                   fsutils_get_child new_top n = fsutils_get_child old_top n))"
proof -
  let ?k = "unat (TS_PACKET_HASH_KEY header hdr)"
  let ?pat = "pat_built p hdr priv"
  let ?s = "snd (pat_parse f header p len priv)"
  let ?fresh = "pat_top_dentry ?pat ?k priv"
  have live: "current_pat_live header hdr priv"
    using assms(3,4) by (simp add: current_pat_live_def)
  have re: "root_entries ?s =
              fsutils_dispose_tree (dentry cur)
                (migrate_entries (dentry cur) (dentry ?pat)
                   (root_entries (pat_create_directory ?pat (Dentry [] 0 ?k [] []) priv)))"
    using assms(3)
    by (simp add: pat_parse_accepts(4) [OF assms(1,2)] pat_create_directory_entries
        pat_built_fields(4))
  have tb: "psi_tables ?s = hashtable_add (hashtable_del (psi_tables priv) f) ?k ?pat"
    using assms(3)
    by (simp add: pat_parse_accepts(2) [OF assms(1,2)] hashtable_add_def hashtable_del_def)
  have inst: "psi_tables ?s ?k = Some ?pat"
    by (rule pat_parse_table_installed [OF assms(1,2)])
  have ver: "version_number hdr \<noteq> version_number cur"
    using assms(1,2,3) by (auto simp: pat_discards_def)
  have ne: "dentry cur \<noteq> calloc_addr priv"
    using entry_at_live [OF assms(4)] by simp
  have gone: "entry_at (root_entries ?s) (dentry cur) = None"
    by (simp add: re entry_at_dispose)
  have top: "entry_at (root_entries ?s) (dentry ?pat) =
               Some (snd (fsutils_migrate_children old_top ?fresh))"
    using pat_parse_new_top [OF assms(1,2) live, of f] assms(3,4)
    by (simp add: pat_built_fields(4))
  have ch: "fsutils_get_child (snd (fsutils_migrate_children old_top ?fresh)) n =
              (case fsutils_get_child ?fresh n of
                 Some x \<Rightarrow> Some x
               | None \<Rightarrow> fsutils_get_child old_top n)" for n
    by (rule get_child_migrated)
  have other: "fsutils_get_child (snd (fsutils_migrate_children old_top ?fresh)) n =
                 fsutils_get_child old_top n"
    if "n \<noteq> ''V'' @ fmt_02d (unat (version_number hdr)) \<and> n \<noteq> ''Current''" for n
    using that get_child_top_other [of n ?pat ?k priv]
    by (simp add: ch pat_built_fields(1))
  have vn: "version_number ?pat = version_number hdr"
    by (simp add: pat_built_fields(1))
  have ex: "\<exists>new_top.
              entry_at (root_entries ?s) (dentry ?pat) = Some new_top \<and>
              (\<forall>n. fsutils_get_child new_top n =
                     (case fsutils_get_child ?fresh n of
                        Some x \<Rightarrow> Some x
                      | None \<Rightarrow> fsutils_get_child old_top n)) \<and>
              (\<forall>n. n \<noteq> ''V'' @ fmt_02d (unat (version_number hdr)) \<and> n \<noteq> ''Current'' \<longrightarrow>
                     fsutils_get_child new_top n = fsutils_get_child old_top n)"
    using top ch other by blast
  from re tb inst vn ver gone ex show ?thesis
    by (intro conjI)
qed

section \<open>A section shorter than its fixed fields\<close>







section \<open>The hash entry deleted on supersession\<close>

lemma accepts_v0_nit:
  "\<not> pat_discards ts_header_pid0 (payload_of section_v0) 16 priv_with_nit"
  by (simp add: pat_discards_def psi_parse_v0 key_pid0_v0 priv_with_nit_fields header_v0_rest)

lemma tables_v0_nit:
  "psi_tables (snd (pat_parse f ts_header_pid0 (payload_of section_v0) 16 priv_with_nit)) =
     (psi_tables priv_with_nit)(0 \<mapsto> pat_built (payload_of section_v0) header_v0 priv_with_nit)"
  by (simp add: pat_parse_accepts(2) [OF psi_parse_v0 accepts_v0_nit] key_pid0_v0
      priv_with_nit_fields)

lemma header_v1_cni: "current_next_indicator header_v1 = 1"
  by (simp add: header_v1_def)

lemma accepts_v1_after_v0:
  "\<not> pat_discards ts_header_pid0 (payload_of section_v1) 16
       (snd (pat_parse f ts_header_pid0 (payload_of section_v0) 16 priv_with_nit))"
  by (simp add: pat_discards_def psi_parse_v1 key_pid0_v1 tables_v0_nit pat_built_fields(1)
      header_v0_fields header_v1_fields header_v1_cni)

lemma tables_v1_after_v0:
  "psi_tables
     (snd (pat_parse f ts_header_pid0 (payload_of section_v1) 16
             (snd (pat_parse g ts_header_pid0 (payload_of section_v0) 16 priv_with_nit)))) =
   ((psi_tables priv_with_nit)
      (0 \<mapsto> pat_built (payload_of section_v0) header_v0 priv_with_nit, f := None))
      (0 \<mapsto> pat_built (payload_of section_v1) header_v1
                 (snd (pat_parse g ts_header_pid0 (payload_of section_v0) 16 priv_with_nit)))"
  by (simp add: pat_parse_accepts(2) [OF psi_parse_v1 accepts_v1_after_v0] key_pid0_v1
      tables_v0_nit)

text \<open>
  C1: the code at the private data that holds the NIT and the PAT of version 0, as
  \<^verbatim>\<open>pat_parse\<close> makes it from \<open>section_v0\<close>, when the PAT of version 1 arrives.
  \<^verbatim>\<open>pat_parse\<close> disposes the old top dentry and only then reads from it the key it
  gives to \<^verbatim>\<open>hashtable_del\<close>.  When the freed dentry holds 0x1040 there, the entry of
  the NIT is removed from \<^verbatim>\<open>psi_tables\<close>; when it still holds the key 0, the NIT stays.
  The new object is installed under the key 0 in both cases.
\<close>

theorem pat_supersede_deletes_freed_key:
  "psi_tables (snd (pat_parse 0 ts_header_pid0 (payload_of section_v0) 16 priv_with_nit)) 0x1040 =
     Some nit_table \<and>
   map_option version_number
     (psi_tables (snd (pat_parse 0 ts_header_pid0 (payload_of section_v0) 16 priv_with_nit)) 0) =
     Some 0 \<and>
   map_option version_number
     (psi_tables
        (snd (pat_parse 0x1040 ts_header_pid0 (payload_of section_v1) 16
                (snd (pat_parse 0 ts_header_pid0 (payload_of section_v0) 16 priv_with_nit)))) 0) =
     Some 1 \<and>
   psi_tables
     (snd (pat_parse 0x1040 ts_header_pid0 (payload_of section_v1) 16
             (snd (pat_parse 0 ts_header_pid0 (payload_of section_v0) 16 priv_with_nit))))
     0x1040 = None \<and>
   psi_tables
     (snd (pat_parse 0 ts_header_pid0 (payload_of section_v1) 16
             (snd (pat_parse 0 ts_header_pid0 (payload_of section_v0) 16 priv_with_nit))))
     0x1040 = Some nit_table"
  by (simp add: tables_v1_after_v0 tables_v0_nit priv_with_nit_fields pat_built_fields(1)
      header_v0_fields header_v1_fields)

end
